theory Spec2Isabelle
  imports Main "HOL-Library.Word" "HOL-Library.Sublist"
begin

section \<open>The majority finality provider (pkg/beacon/majority.go)\<close>

subsection \<open>Data model\<close>

type_synonym root = "256 word"
type_synonym slot = "64 word"
type_synonym epoch = "64 word"
type_synonym time = int
type_synonym duration = int
type_synonym beacon_state = "8 word list"

text \<open>
  Error values. The first six are the errors majority.go creates itself; \<open>NilDereference\<close>
  is the runtime panic of reading a field through a nil pointer; the others are error
  values handed over by a collaborator and passed through unchanged.
\<close>

datatype error =
    BlockNotFound
  | StateNotFound
  | NotAligned slot
  | SlotFailed error
  | NoNodesReady
  | NoDataProvider
  | NilDereference
  | NoNodesAvailable
  | QueueSaturated
  | External string

text \<open>phase0.Checkpoint and v1.Finality; both fields of a Finality are pointers.\<close>

record checkpoint =
  Epoch :: epoch
  Root :: root

record finality =
  Finalized :: "checkpoint option"
  Justified :: "checkpoint option"

text \<open>
  spec.VersionedSignedBeaconBlock, seen through the three accessors majority.go calls.
  Each of them returns a value or an error.
\<close>

record block =
  Slot :: "error + slot"
  BlockRoot :: "error + root"
  StateRoot :: "error + root"

text \<open>
  store.Block and store.BeaconState are not part of the source at hand. A store is taken
  as the answers of its lookup methods: nil, the artifact, or an error
  (\<open>Inr None\<close>, \<open>Inr (Some x)\<close>, \<open>Inl e\<close>), and the expiry recorded for a key.
\<close>

record block_store =
  GetBySlot :: "slot \<Rightarrow> error + block option"
  GetByRoot :: "root \<Rightarrow> error + block option"
  GetByStateRoot :: "root \<Rightarrow> error + block option"
  ExpiresAt :: "root \<Rightarrow> time option"

record state_store =
  StateByStateRoot :: "root \<Rightarrow> error + beacon_state option"
  StateExpiresAt :: "root \<Rightarrow> time option"

text \<open>The lookups that reach a store, in the order they are made.\<close>

datatype store_read =
    ReadBlockBySlot slot
  | ReadBlockByRoot root
  | ReadBlockByStateRoot root
  | ReadState root

text \<open>The identifier handed to an upstream's FetchBlock.\<close>

datatype block_id = GenesisId | SlotId slot | RootId root

record beacon_spec =
  SlotsPerEpoch :: "64 word"
  SecondsPerSlot :: duration

record genesis =
  GenesisTime :: time

text \<open>
  An upstream node with the answers its client gives when called, and its status.
\<close>

record node =
  Name :: string
  Healthy :: bool
  Syncing :: bool
  DataProvider :: bool
  GetFinality :: "error + finality"
  GetSpec :: "error + beacon_spec"
  GetGenesis :: "error + genesis"
  FetchBlock :: "block_id \<Rightarrow> error + block option"

record downloader =
  queue :: "root list"
  capacity :: nat

text \<open>
  The Majority struct. \<open>published\<close> is what the broker was asked to emit on the topic
  finality_head_updated, \<open>fetched\<close> the FetchBlock calls made to upstreams,
  \<open>touched\<close> the lookups made in the two stores, \<open>servingEpoch\<close> the values handed
  to metrics.ObserveServingEpoch.
\<close>

record majority =
  head :: "finality option"
  currentBundle :: "finality option"
  blocks :: block_store
  states :: state_store
  bundleDownloader :: downloader
  published :: "finality list"
  fetched :: "(string \<times> block_id) list"
  touched :: "store_read list"
  servingEpoch :: "epoch list"

subsection \<open>Collaborators\<close>

text \<open>
  Modelled from the spec: store.NewBlock, missing from the source. A new block store holds
  nothing.
\<close>

definition NewBlock :: block_store where
  "NewBlock = \<lparr>GetBySlot = (\<lambda>_. Inr None), GetByRoot = (\<lambda>_. Inr None),
     GetByStateRoot = (\<lambda>_. Inr None), ExpiresAt = (\<lambda>_. None)\<rparr>"

text \<open>
  Modelled from the spec: store.NewBeaconState, missing from the source. A new state store
  holds nothing.
\<close>

definition NewBeaconState :: state_store where
  "NewBeaconState = \<lparr>StateByStateRoot = (\<lambda>_. Inr None), StateExpiresAt = (\<lambda>_. None)\<rparr>"

text \<open>
  Modelled from the spec: store.Block.Add, missing from the source. It inserts the block
  keyed by its root and indexes it by slot and by state root; a block whose accessors fail
  cannot be keyed and is refused with that error.
\<close>

definition Add :: "block \<Rightarrow> time \<Rightarrow> block_store \<Rightarrow> error option \<times> block_store" where
  "Add b expiresAt st =
     (case BlockRoot b of
        Inl err \<Rightarrow> (Some err, st)
      | Inr r \<Rightarrow>
          (case Slot b of
             Inl err \<Rightarrow> (Some err, st)
           | Inr sl \<Rightarrow>
               (case StateRoot b of
                  Inl err \<Rightarrow> (Some err, st)
                | Inr sr \<Rightarrow>
                    (None, st\<lparr>GetBySlot := (GetBySlot st)(sl := Inr (Some b)),
                              GetByRoot := (GetByRoot st)(r := Inr (Some b)),
                              GetByStateRoot := (GetByStateRoot st)(sr := Inr (Some b)),
                              ExpiresAt := (ExpiresAt st)(r := Some expiresAt)\<rparr>))))"

text \<open>
  Modelled from the spec: store.BeaconState.Add, missing from the source. It inserts the
  state keyed by its state root.
\<close>

definition AddState :: "root \<Rightarrow> beacon_state \<Rightarrow> time \<Rightarrow> state_store \<Rightarrow> state_store" where
  "AddState sr st expiresAt ss =
     ss\<lparr>StateByStateRoot := (StateByStateRoot ss)(sr := Inr (Some st)),
        StateExpiresAt := (StateExpiresAt ss)(sr := Some expiresAt)\<rparr>"

text \<open>
  Modelled from the spec: the eviction of a block entry (expiry or capacity pressure),
  missing from the source. The entry leaves the store and its two indexes.
\<close>

definition evictBlock :: "root \<Rightarrow> block_store \<Rightarrow> block_store" where
  "evictBlock r st =
     (case GetByRoot st r of
        Inr (Some b) \<Rightarrow>
          st\<lparr>GetBySlot := (case Slot b of Inr sl \<Rightarrow> (GetBySlot st)(sl := Inr None) | Inl _ \<Rightarrow> GetBySlot st),
             GetByRoot := (GetByRoot st)(r := Inr None),
             GetByStateRoot := (case StateRoot b of Inr sr \<Rightarrow> (GetByStateRoot st)(sr := Inr None)
                                | Inl _ \<Rightarrow> GetByStateRoot st),
             ExpiresAt := (ExpiresAt st)(r := None)\<rparr>
      | _ \<Rightarrow> st)"

text \<open>
  Modelled from the spec: Nodes.Ready, missing from the source. The ready nodes are the
  healthy ones that are not syncing.
\<close>

definition Ready :: "node list \<Rightarrow> node list" where
  "Ready nodes = filter (\<lambda>n. Healthy n \<and> \<not> Syncing n) nodes"

text \<open>
  Modelled from the spec: Nodes.DataProviders, missing from the source. The data providers
  are the nodes flagged as such.
\<close>

definition DataProviders :: "node list \<Rightarrow> node list" where
  "DataProviders nodes = filter DataProvider nodes"

text \<open>
  Modelled from the spec: Nodes.RandomNode, missing from the source. It fails on an empty
  pool and else returns the node the random draw \<open>rnd\<close> lands on.
\<close>

definition RandomNode :: "node list \<Rightarrow> nat \<Rightarrow> error + node" where
  "RandomNode nodes rnd =
     (if nodes = [] then Inl NoNodesAvailable else Inr (nodes ! (rnd mod length nodes)))"

text \<open>
  Modelled from the spec: BundleDownloader.ExistsInQueue, missing from the source. It tells
  whether a task for the root is in flight or pending.
\<close>

definition ExistsInQueue :: "root \<Rightarrow> downloader \<Rightarrow> bool" where
  "ExistsInQueue r d = (r \<in> set (queue d))"

text \<open>
  Modelled from the spec: BundleDownloader.AddToQueue, missing from the source. For a root
  that has a task alive it is a no-op; it fails when the queue is saturated and else
  appends the root.
\<close>

definition AddToQueue :: "root \<Rightarrow> downloader \<Rightarrow> error option \<times> downloader" where
  "AddToQueue r d =
     (if r \<in> set (queue d) then (None, d)
      else if capacity d \<le> length (queue d) then (Some QueueSaturated, d)
      else (None, d\<lparr>queue := queue d @ [r]\<rparr>))"

subsection \<open>The provider\<close>

definition touch :: "store_read \<Rightarrow> majority \<Rightarrow> majority" where
  "touch rd m = m\<lparr>touched := touched m @ [rd]\<rparr>"

text \<open>NewMajorityProvider: head and currentBundle point at an empty Finality.\<close>

definition NewMajorityProvider :: "nat \<Rightarrow> majority" where
  "NewMajorityProvider queueCapacity =
     \<lparr>head = Some \<lparr>Finalized = None, Justified = None\<rparr>,
      currentBundle = Some \<lparr>Finalized = None, Justified = None\<rparr>,
      blocks = NewBlock,
      states = NewBeaconState,
      bundleDownloader = \<lparr>queue = [], capacity = queueCapacity\<rparr>,
      published = [],
      fetched = [],
      touched = [],
      servingEpoch = []\<rparr>"

text \<open>
  updateServingCheckpoint, lines 240-291. The result is the returned error (None for nil)
  and the provider afterwards.
\<close>

definition updateServingCheckpoint :: "finality \<Rightarrow> majority \<Rightarrow> error option \<times> majority" where
  "updateServingCheckpoint checkpoint m =
     (case Finalized checkpoint of
        None \<Rightarrow> (Some NilDereference, m)
      | Some fc \<Rightarrow>
          (let m1 = touch (ReadBlockByRoot (Root fc)) m in
           case GetByRoot (blocks m) (Root fc) of
             Inl err \<Rightarrow> (Some err, m1)
           | Inr None \<Rightarrow> (Some BlockNotFound, m1)
           | Inr (Some blk) \<Rightarrow>
               (case StateRoot blk of
                  Inl err \<Rightarrow> (Some err, m1)
                | Inr stateRoot \<Rightarrow>
                    (let m2 = touch (ReadState stateRoot) m1 in
                     case StateByStateRoot (states m) stateRoot of
                       Inl err \<Rightarrow> (Some err, m2)
                     | Inr None \<Rightarrow> (Some StateNotFound, m2)
                     | Inr (Some state) \<Rightarrow>
                         (case Slot blk of
                            Inl err \<Rightarrow> (Some (SlotFailed err), m2)
                          | Inr blockSlot \<Rightarrow>
                              if blockSlot mod 32 \<noteq> 0 then (Some (NotAligned blockSlot), m2)
                              else (None, m2\<lparr>currentBundle := Some checkpoint,
                                             servingEpoch := servingEpoch m2 @ [Epoch fc]\<rparr>))))))"

text \<open>handleFinalityUpdated, lines 293-295.\<close>

definition handleFinalityUpdated :: "finality \<Rightarrow> majority \<Rightarrow> error option \<times> majority" where
  "handleFinalityUpdated checkpoint m =
     (case Finalized checkpoint of
        None \<Rightarrow> (Some NilDereference, m)
      | Some fc \<Rightarrow>
          (case AddToQueue (Root fc) (bundleDownloader m) of
             (err, d) \<Rightarrow> (err, m\<lparr>bundleDownloader := d\<rparr>)))"

text \<open>
  fetchHistoricalCheckpoints, lines 297-359. \<open>historicalLoop\<close> is the for loop of lines
  319-356 from index \<open>i\<close> on, in uint64 arithmetic. \<open>calc\<close> is CalculateBlockExpiration,
  which is not part of the source at hand; its last argument is 3*24*time.Hour.
\<close>

definition historicalDistance :: nat where
  "historicalDistance = 10"

definition Hour :: duration where
  "Hour = 3600000000000"

type_synonym expiration = "slot \<Rightarrow> duration \<Rightarrow> 64 word \<Rightarrow> time \<Rightarrow> duration \<Rightarrow> time"

function historicalLoop ::
  "expiration \<Rightarrow> node \<Rightarrow> beacon_spec \<Rightarrow> genesis \<Rightarrow> 64 word \<Rightarrow> nat \<Rightarrow> majority \<Rightarrow> error option \<times> majority" where
  "historicalLoop calc upstream sp gen currentSlot i m =
     (if i < historicalDistance then
        (if currentSlot - of_nat i * SlotsPerEpoch sp = 0
         then historicalLoop calc upstream sp gen currentSlot (i + 1) m
         else
           (let s = currentSlot - of_nat i * SlotsPerEpoch sp;
                m1 = touch (ReadBlockBySlot s) m in
            case GetBySlot (blocks m) s of
              Inr (Some bl) \<Rightarrow> historicalLoop calc upstream sp gen currentSlot (i + 1) m1
            | _ \<Rightarrow>
                (let m2 = m1\<lparr>fetched := fetched m1 @ [(Name upstream, SlotId s)]\<rparr> in
                 case FetchBlock upstream (SlotId s) of
                   Inl err \<Rightarrow> (Some err, m2)
                 | Inr None \<Rightarrow> historicalLoop calc upstream sp gen currentSlot (i + 1) m2
                 | Inr (Some blk) \<Rightarrow>
                     (case StateRoot blk of
                        Inl err \<Rightarrow> (Some err, m2)
                      | Inr stateRoot \<Rightarrow>
                          (let expiresAt = calc s (SecondsPerSlot sp) (SlotsPerEpoch sp)
                                             (GenesisTime gen) (3 * 24 * Hour) in
                           case Add blk expiresAt (blocks m2) of
                             (Some err, st) \<Rightarrow> (Some err, m2)
                           | (None, st) \<Rightarrow>
                               historicalLoop calc upstream sp gen currentSlot (i + 1)
                                 (m2\<lparr>blocks := st\<rparr>))))))
      else (None, m))"
  by pat_completeness auto
termination
  by (relation "measure (\<lambda>(calc, upstream, sp, gen, currentSlot, i, m). historicalDistance - i)")
     (auto simp: historicalDistance_def)

declare historicalLoop.simps [simp del]

definition fetchHistoricalCheckpoints ::
  "node list \<Rightarrow> nat \<Rightarrow> expiration \<Rightarrow> finality \<Rightarrow> majority \<Rightarrow> error option \<times> majority" where
  "fetchHistoricalCheckpoints nodes rnd calc checkpoint m =
     (case RandomNode (DataProviders (Ready nodes)) rnd of
        Inl err \<Rightarrow> (Some NoDataProvider, m)
      | Inr upstream \<Rightarrow>
          (case GetSpec upstream of
             Inl err \<Rightarrow> (Some err, m)
           | Inr sp \<Rightarrow>
               (case GetGenesis upstream of
                  Inl err \<Rightarrow> (Some err, m)
                | Inr gen \<Rightarrow>
                    (case Finalized checkpoint of
                       None \<Rightarrow> (Some NilDereference, m)
                     | Some fc \<Rightarrow>
                         historicalLoop calc upstream sp gen (Epoch fc * SlotsPerEpoch sp) 1 m))))"

text \<open>The slots the loop of lines 319-324 goes through, in uint64 arithmetic.\<close>

definition historicalLoopSlots :: "64 word \<Rightarrow> 64 word \<Rightarrow> slot list" where
  "historicalLoopSlots currentSlot spe =
     map (\<lambda>i. currentSlot - of_nat i * spe) [1..<historicalDistance]"

text \<open>
  The condition of lines 159 and 165,
  \<^verbatim>\<open>x == nil || x.Finalized == nil || x.Finalized.Root != majority.Finalized.Root\<close>,
  evaluated left to right: the majority's Finalized is read only in the third disjunct.
\<close>

definition rootDiffers :: "finality option \<Rightarrow> finality \<Rightarrow> error + bool" where
  "rootDiffers x maj =
     (case x of
        None \<Rightarrow> Inr True
      | Some cur \<Rightarrow>
          (case Finalized cur of
             None \<Rightarrow> Inr True
           | Some cc \<Rightarrow>
               (case Finalized maj of
                  None \<Rightarrow> Inl NilDereference
                | Some mc \<Rightarrow> Inr (Root cc \<noteq> Root mc))))"

text \<open>
  publishFinalityCheckpointHeadUpdated, lines 236-238. The broker's Emit calls the
  subscribers of the topic and returns when they have returned. Start registers two, in
  lines 72-73: handleFinalityUpdated and fetchHistoricalCheckpoints; an error a subscriber
  returns is logged by the wrapper of lines 228-234 and goes no further. The first writes
  the downloader's queue only and the second the block store only, so the order in which
  the two run makes no difference. \<open>rnd\<close> is the random draw of the back-fill's RandomNode and
  \<open>calc\<close> its CalculateBlockExpiration.
\<close>

definition publishFinalityCheckpointHeadUpdated ::
  "node list \<Rightarrow> nat \<Rightarrow> expiration \<Rightarrow> finality \<Rightarrow> majority \<Rightarrow> majority" where
  "publishFinalityCheckpointHeadUpdated nodes rnd calc checkpoint m =
     (let m1 = m\<lparr>published := published m @ [checkpoint]\<rparr>;
          m2 = snd (handleFinalityUpdated checkpoint m1)
      in snd (fetchHistoricalCheckpoints nodes rnd calc checkpoint m2))"

text \<open>
  checkFinality, lines 137-172. \<open>nodes\<close> is the pool as it answers during this tick,
  \<open>rnd\<close> and \<open>calc\<close> are handed to the publication of line 161;
  \<open>collectFinality\<close> is the loop of lines 138-150; \<open>Majority\<close> is the aggregator
  \<^verbatim>\<open>NewCheckpoints(aggFinality).Majority()\<close>, which is not part of the source at hand.
  The log statement of line 162 reads majority.Finalized.Epoch.
\<close>

definition collectFinality :: "node list \<Rightarrow> finality list" where
  "collectFinality nodes =
     concat (map (\<lambda>n. case GetFinality n of Inl _ \<Rightarrow> [] | Inr f \<Rightarrow> [f]) (Ready nodes))"

definition checkFinality ::
  "node list \<Rightarrow> nat \<Rightarrow> expiration \<Rightarrow> (finality list \<Rightarrow> error + finality) \<Rightarrow> majority
     \<Rightarrow> error option \<times> majority" where
  "checkFinality nodes rnd calc Majority m =
     (let aggFinality = collectFinality nodes in
      case Majority aggFinality of
        Inl err \<Rightarrow> (Some err, m)
      | Inr maj \<Rightarrow>
          (case rootDiffers (head m) maj of
             Inl e \<Rightarrow> (Some e, m)
           | Inr headStale \<Rightarrow>
               (let m1 = (if headStale
                          then publishFinalityCheckpointHeadUpdated nodes rnd calc maj (m\<lparr>head := Some maj\<rparr>)
                          else m) in
                if headStale \<and> Finalized maj = None then (Some NilDereference, m1)
                else
                  (case rootDiffers (currentBundle m1) maj of
                     Inl e \<Rightarrow> (Some e, m1)
                   | Inr bundleStale \<Rightarrow>
                       if bundleStale then updateServingCheckpoint maj m1 else (None, m1)))))"

text \<open>
  checkGenesis, lines 174-226. \<open>genesisStored\<close> is the no-op test of lines 178-186,
  \<open>rnd\<close> the random draw of RandomNode. Root() on a nil block is a nil dereference.
\<close>

definition genesisStored :: "majority \<Rightarrow> bool \<times> majority" where
  "genesisStored m =
     (let m1 = touch (ReadBlockBySlot 0) m in
      case GetBySlot (blocks m) 0 of
        Inr (Some blk) \<Rightarrow>
          (case StateRoot blk of
             Inr stateRoot \<Rightarrow>
               (let m2 = touch (ReadState stateRoot) m1 in
                case StateByStateRoot (states m) stateRoot of
                  Inr (Some state) \<Rightarrow> (True, m2)
                | _ \<Rightarrow> (False, m2))
           | Inl errr \<Rightarrow> (False, m1))
      | _ \<Rightarrow> (False, m1))"

definition checkGenesis :: "node list \<Rightarrow> nat \<Rightarrow> majority \<Rightarrow> error option \<times> majority" where
  "checkGenesis nodes rnd m =
     (case genesisStored m of
        (True, m1) \<Rightarrow> (None, m1)
      | (False, m1) \<Rightarrow>
          (let readyNodes = Ready nodes in
           if length readyNodes = 0 then (Some NoNodesReady, m1)
           else
             (case RandomNode readyNodes rnd of
                Inl err \<Rightarrow> (Some err, m1)
              | Inr randomNode \<Rightarrow>
                  (let m2 = m1\<lparr>fetched := fetched m1 @ [(Name randomNode, GenesisId)]\<rparr> in
                   case FetchBlock randomNode GenesisId of
                     Inl err \<Rightarrow> (Some err, m2)
                   | Inr None \<Rightarrow> (Some NilDereference, m2)
                   | Inr (Some genesisBlock) \<Rightarrow>
                       (case BlockRoot genesisBlock of
                          Inl err \<Rightarrow> (Some err, m2)
                        | Inr genesisBlockRoot \<Rightarrow>
                            if ExistsInQueue genesisBlockRoot (bundleDownloader m2) then (None, m2)
                            else
                              (case AddToQueue genesisBlockRoot (bundleDownloader m2) of
                                 (Some err, d) \<Rightarrow> (Some err, m2\<lparr>bundleDownloader := d\<rparr>)
                               | (None, d) \<Rightarrow> (None, m2\<lparr>bundleDownloader := d\<rparr>)))))))"

text \<open>The query methods, lines 361-430.\<close>

definition GetBlockBySlot :: "slot \<Rightarrow> majority \<Rightarrow> (error + block) \<times> majority" where
  "GetBlockBySlot sl m =
     (let m1 = touch (ReadBlockBySlot sl) m in
      case GetBySlot (blocks m) sl of
        Inl err \<Rightarrow> (Inl err, m1)
      | Inr None \<Rightarrow> (Inl BlockNotFound, m1)
      | Inr (Some blk) \<Rightarrow> (Inr blk, m1))"

definition GetBlockByRoot :: "root \<Rightarrow> majority \<Rightarrow> (error + block) \<times> majority" where
  "GetBlockByRoot r m =
     (let m1 = touch (ReadBlockByRoot r) m in
      case GetByRoot (blocks m) r of
        Inl err \<Rightarrow> (Inl err, m1)
      | Inr None \<Rightarrow> (Inl BlockNotFound, m1)
      | Inr (Some blk) \<Rightarrow> (Inr blk, m1))"

definition GetBlockByStateRoot :: "root \<Rightarrow> majority \<Rightarrow> (error + block) \<times> majority" where
  "GetBlockByStateRoot sr m =
     (let m1 = touch (ReadBlockByStateRoot sr) m in
      case GetByStateRoot (blocks m) sr of
        Inl err \<Rightarrow> (Inl err, m1)
      | Inr None \<Rightarrow> (Inl BlockNotFound, m1)
      | Inr (Some blk) \<Rightarrow> (Inr blk, m1))"

definition GetBeaconStateByStateRoot :: "root \<Rightarrow> majority \<Rightarrow> (error + beacon_state option) \<times> majority" where
  "GetBeaconStateByStateRoot stateRoot m =
     (StateByStateRoot (states m) stateRoot, touch (ReadState stateRoot) m)"

definition GetBeaconStateBySlot :: "slot \<Rightarrow> majority \<Rightarrow> (error + beacon_state option) \<times> majority" where
  "GetBeaconStateBySlot sl m =
     (case GetBlockBySlot sl m of
        (Inl err, m1) \<Rightarrow> (Inl err, m1)
      | (Inr blk, m1) \<Rightarrow>
          (case StateRoot blk of
             Inl err \<Rightarrow> (Inl err, m1)
           | Inr stateRoot \<Rightarrow> GetBeaconStateByStateRoot stateRoot m1))"

definition GetBeaconStateByRoot :: "root \<Rightarrow> majority \<Rightarrow> (error + beacon_state option) \<times> majority" where
  "GetBeaconStateByRoot r m =
     (case GetBlockByRoot r m of
        (Inl err, m1) \<Rightarrow> (Inl err, m1)
      | (Inr blk, m1) \<Rightarrow>
          (case StateRoot blk of
             Inl err \<Rightarrow> (Inl err, m1)
           | Inr stateRoot \<Rightarrow> GetBeaconStateByStateRoot stateRoot m1))"

subsection \<open>The other tasks that write the stores\<close>

text \<open>
  Modelled from the spec: a finished task of the bundle downloader, missing from the
  source. It adds the block unless the block store has its root, and adds the state under
  the block's state root with the same expiry.
\<close>

definition downloadBundle :: "block \<Rightarrow> beacon_state \<Rightarrow> time \<Rightarrow> majority \<Rightarrow> majority" where
  "downloadBundle blk st expiresAt m =
     (case BlockRoot blk of
        Inl err \<Rightarrow> m
      | Inr r \<Rightarrow>
          (case StateRoot blk of
             Inl err \<Rightarrow> m
           | Inr sr \<Rightarrow>
               (let bs = (case GetByRoot (blocks m) r of
                            Inr (Some held) \<Rightarrow> blocks m
                          | _ \<Rightarrow> snd (Add blk expiresAt (blocks m)))
                in m\<lparr>blocks := bs, states := AddState sr st expiresAt (states m)\<rparr>)))"

subsection \<open>Serving closure and alignment; reachable states\<close>

text \<open>
  The serving view \<open>F\<close> is closed and aligned in \<open>m\<close>: the block store answers
  F.Finalized.Root with a block, the state store answers that block's state root with a
  state, and the block's slot is a multiple of 32.
\<close>

definition servingClosed :: "majority \<Rightarrow> finality \<Rightarrow> bool" where
  "servingClosed m F =
     (case Finalized F of
        None \<Rightarrow> False
      | Some fc \<Rightarrow>
          (case GetByRoot (blocks m) (Root fc) of
             Inr (Some blk) \<Rightarrow>
               (case StateRoot blk of
                  Inr sr \<Rightarrow>
                    (case StateByStateRoot (states m) sr of
                       Inr (Some st) \<Rightarrow> (case Slot blk of Inr sl \<Rightarrow> sl mod 32 = 0 | Inl _ \<Rightarrow> False)
                     | _ \<Rightarrow> False)
                | Inl _ \<Rightarrow> False)
           | _ \<Rightarrow> False))"

text \<open>
  The states the provider can be in: it starts as NewMajorityProvider builds it, and then
  the periodic tick, the genesis check, the two subscribers of the head-updated topic, the
  downloader and the stores' eviction act on it in any order.
\<close>

inductive reachable :: "majority \<Rightarrow> bool" where
  start: "reachable (NewMajorityProvider queueCapacity)"
| tick: "reachable m \<Longrightarrow> reachable (snd (checkFinality nodes rnd calc Majority m))"
| genesis: "reachable m \<Longrightarrow> reachable (snd (checkGenesis nodes rnd m))"
| queued: "reachable m \<Longrightarrow> reachable (snd (handleFinalityUpdated checkpoint m))"
| backfilled: "reachable m \<Longrightarrow> reachable (snd (fetchHistoricalCheckpoints nodes rnd calc checkpoint m))"
| downloaded: "reachable m \<Longrightarrow> reachable (downloadBundle blk st expiresAt m)"
| evicted: "reachable m \<Longrightarrow> reachable (m\<lparr>blocks := evictBlock r (blocks m)\<rparr>)"

text \<open>
  \<open>keeps m m'\<close>: every block and every state the stores of \<open>m\<close> answer with is still the
  answer in \<open>m'\<close>. The states reachable while the stores keep their entries: no eviction,
  and an admission replaces nothing, be it the downloader's or the back-fill's, which runs
  as a task of its own and inside a tick that publishes.
\<close>

definition keeps :: "majority \<Rightarrow> majority \<Rightarrow> bool" where
  "keeps m m' =
     ((\<forall>r blk. GetByRoot (blocks m) r = Inr (Some blk) \<longrightarrow> GetByRoot (blocks m') r = Inr (Some blk))
      \<and> (\<forall>sr st. StateByStateRoot (states m) sr = Inr (Some st)
            \<longrightarrow> StateByStateRoot (states m') sr = Inr (Some st)))"

inductive reachableKeeping :: "majority \<Rightarrow> bool" where
  k_start: "reachableKeeping (NewMajorityProvider queueCapacity)"
| k_tick: "reachableKeeping m \<Longrightarrow> m' = snd (checkFinality nodes rnd calc Majority m)
     \<Longrightarrow> keeps m m' \<Longrightarrow> reachableKeeping m'"
| k_genesis: "reachableKeeping m \<Longrightarrow> reachableKeeping (snd (checkGenesis nodes rnd m))"
| k_queued: "reachableKeeping m \<Longrightarrow> reachableKeeping (snd (handleFinalityUpdated checkpoint m))"
| k_backfilled: "reachableKeeping m \<Longrightarrow> m' = snd (fetchHistoricalCheckpoints nodes rnd calc checkpoint m)
     \<Longrightarrow> keeps m m' \<Longrightarrow> reachableKeeping m'"
| k_downloaded: "reachableKeeping m \<Longrightarrow> m' = downloadBundle blk st expiresAt m
     \<Longrightarrow> keeps m m' \<Longrightarrow> reachableKeeping m'"

subsection \<open>The back-fill as the specification words it\<close>

text \<open>
  The three definitions of this subsection follow the words of the specification, not the
  source; the loop of the source is \<open>historicalLoop\<close> above.
\<close>

text \<open>
  The slots of the back-fill, \<open>E * SlotsPerEpoch - i * SlotsPerEpoch\<close> for i from 1 to 9,
  as numbers.
\<close>

definition spec_historicalSlots :: "epoch \<Rightarrow> 64 word \<Rightarrow> slot list" where
  "spec_historicalSlots e spe = map (\<lambda>i. of_nat (unat e * unat spe - i * unat spe)) [1..<10]"

text \<open>
  What is done for one slot: slot 0 and a slot the block store already has are skipped;
  else the block is fetched from the provider, a nil block is skipped, and a block is
  added with the expiration. An error of the fetch, of StateRoot() or of Add is returned.
\<close>

definition spec_backfillSlot ::
  "expiration \<Rightarrow> node \<Rightarrow> beacon_spec \<Rightarrow> genesis \<Rightarrow> slot \<Rightarrow> majority \<Rightarrow> error option \<times> majority" where
  "spec_backfillSlot calc upstream sp gen s m =
     (if s = 0 then (None, m)
      else
        (case GetBySlot (blocks m) s of
           Inr (Some bl) \<Rightarrow> (None, touch (ReadBlockBySlot s) m)
         | _ \<Rightarrow>
             (let m2 = (touch (ReadBlockBySlot s) m)\<lparr>fetched := fetched m @ [(Name upstream, SlotId s)]\<rparr> in
              case FetchBlock upstream (SlotId s) of
                Inl err \<Rightarrow> (Some err, m2)
              | Inr None \<Rightarrow> (None, m2)
              | Inr (Some blk) \<Rightarrow>
                  (case StateRoot blk of
                     Inl err \<Rightarrow> (Some err, m2)
                   | Inr stateRoot \<Rightarrow>
                       (case Add blk (calc s (SecondsPerSlot sp) (SlotsPerEpoch sp) (GenesisTime gen)
                                        (3 * 24 * Hour)) (blocks m) of
                          (Some err, st) \<Rightarrow> (Some err, m2)
                        | (None, st) \<Rightarrow> (None, m2\<lparr>blocks := st\<rparr>))))))"

text \<open>The block store of \<open>m\<close> answers the slot with a block.\<close>

definition holdsSlot :: "majority \<Rightarrow> slot \<Rightarrow> bool" where
  "holdsSlot m s = (case GetBySlot (blocks m) s of Inr (Some bl) \<Rightarrow> True | _ \<Rightarrow> False)"

text \<open>The slots are taken in order; the first error ends the back-fill.\<close>

fun spec_backfill ::
  "(slot \<Rightarrow> majority \<Rightarrow> error option \<times> majority) \<Rightarrow> slot list \<Rightarrow> majority \<Rightarrow> error option \<times> majority" where
  "spec_backfill step [] m = (None, m)"
| "spec_backfill step (s # ss) m =
     (case step s m of
        (Some err, m') \<Rightarrow> (Some err, m')
      | (None, m') \<Rightarrow> spec_backfill step ss m')"

subsection \<open>Scenarios\<close>

text \<open>
  A finalized block at root 0xAA, slot 3200, with state root 0x55; the same block one slot
  off the epoch boundary; the genesis block; the block an upstream serves for a slot.
\<close>

definition blockAA :: block where
  "blockAA = \<lparr>Slot = Inr 3200, BlockRoot = Inr 0xAA, StateRoot = Inr 0x55\<rparr>"

definition blockAA_misaligned :: block where
  "blockAA_misaligned = \<lparr>Slot = Inr 3201, BlockRoot = Inr 0xAA, StateRoot = Inr 0x55\<rparr>"

definition genesisBlock :: block where
  "genesisBlock = \<lparr>Slot = Inr 0, BlockRoot = Inr 0x01, StateRoot = Inr 0x02\<rparr>"

definition blockAt :: "slot \<Rightarrow> block" where
  "blockAt s = \<lparr>Slot = Inr s, BlockRoot = Inr (ucast s + 0x10000), StateRoot = Inr (ucast s + 0x20000)\<rparr>"

definition finalityAA :: finality where
  "finalityAA = \<lparr>Finalized = Some \<lparr>Epoch = 100, Root = 0xAA\<rparr>, Justified = None\<rparr>"

definition finalityBB :: finality where
  "finalityBB = \<lparr>Finalized = Some \<lparr>Epoch = 99, Root = 0xBB\<rparr>, Justified = None\<rparr>"

definition finalityAA_later :: finality where
  "finalityAA_later = \<lparr>Finalized = Some \<lparr>Epoch = 101, Root = 0xAA\<rparr>, Justified = None\<rparr>"

text \<open>
  A ready data provider that reports \<open>f\<close> as its finality, 32 slots (or \<open>spe\<close> slots) per
  epoch, and serves a block for every slot; and one whose fetch of slot 3168 fails.
\<close>

definition upstream :: "string \<Rightarrow> finality \<Rightarrow> 64 word \<Rightarrow> node" where
  "upstream name f spe =
     \<lparr>Name = name, Healthy = True, Syncing = False, DataProvider = True,
      GetFinality = Inr f,
      GetSpec = Inr \<lparr>SlotsPerEpoch = spe, SecondsPerSlot = 12000000000\<rparr>,
      GetGenesis = Inr \<lparr>GenesisTime = 0\<rparr>,
      FetchBlock = (\<lambda>id. case id of
                       GenesisId \<Rightarrow> Inr (Some genesisBlock)
                     | SlotId s \<Rightarrow> Inr (Some (blockAt s))
                     | RootId r \<Rightarrow> Inr None)\<rparr>"

definition flaky :: "node \<Rightarrow> node" where
  "flaky n = n\<lparr>FetchBlock := (FetchBlock n)(SlotId 3168 := Inl (External ''timeout''))\<rparr>"

text \<open>
  A stand-in for the aggregator on a pool whose reports agree: the first report is the
  majority, and no report is an error.
\<close>

definition firstReport :: "finality list \<Rightarrow> error + finality" where
  "firstReport fs = (case fs of [] \<Rightarrow> Inl (External ''no candidates'') | f # _ \<Rightarrow> Inr f)"

text \<open>A stand-in for CalculateBlockExpiration at the time \<open>now\<close>: now plus the time to live.\<close>

definition expireAfter :: "time \<Rightarrow> expiration" where
  "expireAfter now = (\<lambda>s secondsPerSlot slotsPerEpoch genesisTime ttl. now + ttl)"

text \<open>
  Providers after the downloader has brought bundles in: the bundle of blockAA, its block
  alone, the misaligned bundle, and the genesis bundle next to that of blockAA.
\<close>

definition holdingAA :: majority where
  "holdingAA = downloadBundle blockAA [1, 2, 3] 1000 (NewMajorityProvider 16)"

definition holdingBlockOnly :: majority where
  "holdingBlockOnly = (NewMajorityProvider 16)\<lparr>blocks := snd (Add blockAA 1000 NewBlock)\<rparr>"

definition holdingMisaligned :: majority where
  "holdingMisaligned = downloadBundle blockAA_misaligned [1, 2, 3] 1000 (NewMajorityProvider 16)"

definition holdingGenesisAndAA :: majority where
  "holdingGenesisAndAA = downloadBundle genesisBlock [7, 7] 1000 holdingAA"

text \<open>
  A provider that holds the block of slot 3136; one that holds the bundle of the block of
  slot 792, and the finality that names that block.
\<close>

definition holding3136 :: majority where
  "holding3136 = downloadBundle (blockAt 3136) [4] 1000 (NewMajorityProvider 16)"

definition holdingSlot792 :: majority where
  "holdingSlot792 = downloadBundle (blockAt 792) [9] 1000 (NewMajorityProvider 16)"

definition finality792 :: finality where
  "finality792 = \<lparr>Finalized = Some \<lparr>Epoch = 99, Root = 0x10318\<rparr>, Justified = None\<rparr>"

text \<open>The provider after a tick on which the one upstream reports finalityAA.\<close>

definition servingAA :: majority where
  "servingAA = snd (checkFinality [upstream ''a'' finalityAA 32] 0 (expireAfter 0) firstReport holdingAA)"

text \<open>The serving provider after the block store has evicted the block at root 0xAA.\<close>

definition evictedAA :: majority where
  "evictedAA = servingAA\<lparr>blocks := evictBlock 0xAA (blocks servingAA)\<rparr>"

text \<open>A new provider after a genesis check against the one upstream.\<close>

definition genesisQueued :: majority where
  "genesisQueued = snd (checkGenesis [upstream ''a'' finalityAA 32] 5 (NewMajorityProvider 16))"

section \<open>Properties\<close>

lemmas scenario_defs = finalityAA_def finalityBB_def finalityAA_later_def blockAA_def
  blockAA_misaligned_def genesisBlock_def holdingAA_def holdingBlockOnly_def holdingMisaligned_def
  holdingGenesisAndAA_def downloadBundle_def Add_def AddState_def NewMajorityProvider_def
  NewBlock_def NewBeaconState_def upstream_def firstReport_def

subsection \<open>The serving update\<close>

text \<open>
  C2. updateServingCheckpoint(C) fails with "block not found" when the block store has no
  block for C.Finalized.Root, with "state not found" when the state store has no state for
  that block's state root, and with the alignment error when the block's slot is not a
  multiple of 32. Every failure leaves currentBundle as it was. It succeeds exactly when the
  block is held, its state is held and the slot is aligned, and then currentBundle is C.
\<close>

theorem updateServingCheckpoint_preconditions:
  assumes "Finalized C = Some fc"
  shows "(GetByRoot (blocks m) (Root fc) = Inr None
            \<longrightarrow> fst (updateServingCheckpoint C m) = Some BlockNotFound)
       \<and> (\<forall>blk sr. GetByRoot (blocks m) (Root fc) = Inr (Some blk) \<and> StateRoot blk = Inr sr
              \<and> StateByStateRoot (states m) sr = Inr None
            \<longrightarrow> fst (updateServingCheckpoint C m) = Some StateNotFound)
       \<and> (\<forall>blk sr st sl. GetByRoot (blocks m) (Root fc) = Inr (Some blk) \<and> StateRoot blk = Inr sr
              \<and> StateByStateRoot (states m) sr = Inr (Some st) \<and> Slot blk = Inr sl \<and> sl mod 32 \<noteq> 0
            \<longrightarrow> fst (updateServingCheckpoint C m) = Some (NotAligned sl))
       \<and> (fst (updateServingCheckpoint C m) \<noteq> None
            \<longrightarrow> currentBundle (snd (updateServingCheckpoint C m)) = currentBundle m)
       \<and> (fst (updateServingCheckpoint C m) = None
            \<longleftrightarrow> (\<exists>blk sr st sl. GetByRoot (blocks m) (Root fc) = Inr (Some blk) \<and> StateRoot blk = Inr sr
                  \<and> StateByStateRoot (states m) sr = Inr (Some st) \<and> Slot blk = Inr sl \<and> sl mod 32 = 0))
       \<and> (fst (updateServingCheckpoint C m) = None
            \<longrightarrow> currentBundle (snd (updateServingCheckpoint C m)) = Some C)"
  using assms
  by (auto simp: updateServingCheckpoint_def touch_def Let_def split: sum.splits option.splits)

theorem updateServingCheckpoint_preconditions_witness:
  "fst (updateServingCheckpoint finalityAA (NewMajorityProvider 16)) = Some BlockNotFound
   \<and> fst (updateServingCheckpoint finalityAA holdingBlockOnly) = Some StateNotFound
   \<and> fst (updateServingCheckpoint finalityAA holdingMisaligned) = Some (NotAligned 3201)
   \<and> currentBundle (snd (updateServingCheckpoint finalityAA holdingMisaligned))
       = currentBundle holdingMisaligned
   \<and> fst (updateServingCheckpoint finalityAA holdingAA) = None
   \<and> currentBundle (snd (updateServingCheckpoint finalityAA holdingAA)) = Some finalityAA"
proof -
  have fc: "Finalized finalityAA = Some \<lparr>Epoch = 100, Root = 0xAA\<rparr>"
    by (simp add: finalityAA_def)
  note T = updateServingCheckpoint_preconditions [OF fc]
  have a: "fst (updateServingCheckpoint finalityAA (NewMajorityProvider 16)) = Some BlockNotFound"
    using T [of "NewMajorityProvider 16"] by (simp add: scenario_defs)
  have b: "fst (updateServingCheckpoint finalityAA holdingBlockOnly) = Some StateNotFound"
    using T [of holdingBlockOnly] by (simp add: scenario_defs)
  have c: "fst (updateServingCheckpoint finalityAA holdingMisaligned) = Some (NotAligned 3201)"
    using T [of holdingMisaligned] by (simp add: scenario_defs)
  have d: "currentBundle (snd (updateServingCheckpoint finalityAA holdingMisaligned))
             = currentBundle holdingMisaligned"
    using T [of holdingMisaligned] c by simp
  have e: "fst (updateServingCheckpoint finalityAA holdingAA) = None"
    using T [of holdingAA] by (simp add: scenario_defs)
  have f: "currentBundle (snd (updateServingCheckpoint finalityAA holdingAA)) = Some finalityAA"
    using T [of holdingAA] e by simp
  from a b c d e f show ?thesis by simp
qed

text \<open>
  C7. Running updateServingCheckpoint with the checkpoint that is being served leaves
  currentBundle, the block store and the state store as they were, whatever it returns.
\<close>

theorem updateServingCheckpoint_current_noop:
  assumes "currentBundle m = Some C"
  shows "currentBundle (snd (updateServingCheckpoint C m)) = currentBundle m
       \<and> blocks (snd (updateServingCheckpoint C m)) = blocks m
       \<and> states (snd (updateServingCheckpoint C m)) = states m"
  using assms
  by (auto simp: updateServingCheckpoint_def touch_def Let_def split: sum.splits option.splits)

subsection \<open>The query methods\<close>

text \<open>
  C9. GetBeaconStateBySlot and GetBeaconStateByRoot look the block up first (by slot, by
  block root) and fail with "block not found" when the store has none; when the block is
  found, what they return is the state store's answer for that block's state root.
\<close>

theorem GetBeaconState_by_block:
  "(GetBySlot (blocks m) sl = Inr None \<longrightarrow> fst (GetBeaconStateBySlot sl m) = Inl BlockNotFound)
   \<and> (\<forall>blk sr. GetBySlot (blocks m) sl = Inr (Some blk) \<and> StateRoot blk = Inr sr
         \<longrightarrow> fst (GetBeaconStateBySlot sl m) = StateByStateRoot (states m) sr)
   \<and> (GetByRoot (blocks m) r = Inr None \<longrightarrow> fst (GetBeaconStateByRoot r m) = Inl BlockNotFound)
   \<and> (\<forall>blk sr. GetByRoot (blocks m) r = Inr (Some blk) \<and> StateRoot blk = Inr sr
         \<longrightarrow> fst (GetBeaconStateByRoot r m) = StateByStateRoot (states m) sr)"
  by (auto simp: GetBeaconStateBySlot_def GetBeaconStateByRoot_def GetBlockBySlot_def GetBlockByRoot_def
        GetBeaconStateByStateRoot_def touch_def Let_def split: sum.splits option.splits)

theorem GetBeaconState_by_block_witness:
  "fst (GetBeaconStateBySlot 3200 (NewMajorityProvider 16)) = Inl BlockNotFound
   \<and> fst (GetBeaconStateBySlot 3200 holdingAA) = Inr (Some [1, 2, 3])
   \<and> fst (GetBeaconStateByRoot 0xAA (NewMajorityProvider 16)) = Inl BlockNotFound
   \<and> fst (GetBeaconStateByRoot 0xAA holdingAA) = Inr (Some [1, 2, 3])
   \<and> fst (GetBeaconStateByRoot 0xAA holdingBlockOnly) = Inr None"
proof -
  have a: "fst (GetBeaconStateBySlot 3200 (NewMajorityProvider 16)) = Inl BlockNotFound"
    using GetBeaconState_by_block [where m = "NewMajorityProvider 16" and sl = 3200 and r = "0xAA"] by (simp add: scenario_defs)
  have b: "fst (GetBeaconStateBySlot 3200 holdingAA) = Inr (Some [1, 2, 3])"
    using GetBeaconState_by_block [where m = "holdingAA" and sl = 3200 and r = "0xAA"] by (simp add: scenario_defs)
  have c: "fst (GetBeaconStateByRoot 0xAA (NewMajorityProvider 16)) = Inl BlockNotFound"
    using GetBeaconState_by_block [where m = "NewMajorityProvider 16" and sl = 3200 and r = "0xAA"] by (simp add: scenario_defs)
  have d: "fst (GetBeaconStateByRoot 0xAA holdingAA) = Inr (Some [1, 2, 3])"
    using GetBeaconState_by_block [where m = "holdingAA" and sl = 3200 and r = "0xAA"] by (simp add: scenario_defs)
  have e: "fst (GetBeaconStateByRoot 0xAA holdingBlockOnly) = Inr None"
    using GetBeaconState_by_block [where m = "holdingBlockOnly" and sl = 3200 and r = "0xAA"] by (simp add: scenario_defs)
  from a b c d e show ?thesis by simp
qed


subsection \<open>The subscribers of the head-updated topic\<close>

text \<open>The loop of lines 319-356 is the back-fill over the slots the loop goes through.\<close>

lemma historicalLoop_step:
  assumes "i < historicalDistance"
  shows "historicalLoop calc up sp gen cs i m
     = (case spec_backfillSlot calc up sp gen (cs - of_nat i * SlotsPerEpoch sp) m of
          (Some err, m') \<Rightarrow> (Some err, m')
        | (None, m') \<Rightarrow> historicalLoop calc up sp gen cs (i + 1) m')"
  apply (subst historicalLoop.simps)
  using assms
  apply (simp add: spec_backfillSlot_def Let_def touch_def split: sum.splits option.splits prod.splits)
  done

lemma historicalLoop_backfill:
  "historicalLoop calc up sp gen cs i m
     = spec_backfill (spec_backfillSlot calc up sp gen)
         (map (\<lambda>j. cs - of_nat j * SlotsPerEpoch sp) [i..<historicalDistance]) m"
proof (induction "historicalDistance - i" arbitrary: i m)
  case 0
  then show ?case by (subst historicalLoop.simps) simp
next
  case (Suc n)
  then have lt: "i < historicalDistance" by simp
  then have upt: "[i..<historicalDistance] = i # [i + 1..<historicalDistance]"
    by (simp add: upt_conv_Cons)
  have ih: "historicalLoop calc up sp gen cs (Suc i) m'
     = spec_backfill (spec_backfillSlot calc up sp gen)
         (map (\<lambda>j. cs - of_nat j * SlotsPerEpoch sp) [Suc i..<historicalDistance]) m'" for m'
    using Suc(1) [of "Suc i" m'] Suc(2) by simp
  show ?case
    unfolding historicalLoop_step [OF lt] upt
    by (simp add: ih split: prod.splits option.splits)
qed

lemma handler_runs_backfill:
  assumes "RandomNode (DataProviders (Ready nodes)) rnd = Inr up"
    and "GetSpec up = Inr sp" and "GetGenesis up = Inr gen" and "Finalized checkpoint = Some fc"
  shows "fetchHistoricalCheckpoints nodes rnd calc checkpoint m
     = spec_backfill (spec_backfillSlot calc up sp gen)
         (historicalLoopSlots (Epoch fc * SlotsPerEpoch sp) (SlotsPerEpoch sp)) m"
  using assms
  by (simp add: fetchHistoricalCheckpoints_def historicalLoop_backfill historicalLoopSlots_def)

lemma loopSlots_eval:
  "historicalLoopSlots 3200 32 = [3168, 3136, 3104, 3072, 3040, 3008, 2976, 2944, 2912]"
  "historicalLoopSlots 800 8 = [792, 784, 776, 768, 760, 752, 744, 736, 728]"
  by (simp_all add: historicalLoopSlots_def historicalDistance_def upt_rec)

lemma provider_a:
  "RandomNode (DataProviders (Ready [upstream ''a'' f spe])) rnd = Inr (upstream ''a'' f spe)"
  "RandomNode (DataProviders (Ready [flaky (upstream ''a'' f spe)])) rnd = Inr (flaky (upstream ''a'' f spe))"
  by (simp_all add: RandomNode_def DataProviders_def Ready_def upstream_def flaky_def)

lemma upstream_answers:
  "GetSpec (upstream n f spe) = Inr \<lparr>SlotsPerEpoch = spe, SecondsPerSlot = 12000000000\<rparr>"
  "GetGenesis (upstream n f spe) = Inr \<lparr>GenesisTime = 0\<rparr>"
  "GetSpec (flaky (upstream n f spe)) = Inr \<lparr>SlotsPerEpoch = spe, SecondsPerSlot = 12000000000\<rparr>"
  "GetGenesis (flaky (upstream n f spe)) = Inr \<lparr>GenesisTime = 0\<rparr>"
  "Name (upstream n f spe) = n" "Name (flaky (upstream n f spe)) = n"
  "FetchBlock (upstream n f spe) (SlotId s) = Inr (Some (blockAt s))"
  "FetchBlock (flaky (upstream n f spe)) (SlotId s)
     = (if s = 3168 then Inl (External ''timeout'') else Inr (Some (blockAt s)))"
  by (simp_all add: upstream_def flaky_def)

lemma agg_a: "firstReport (collectFinality [upstream n f spe]) = Inr f"
  by (simp add: firstReport_def collectFinality_def Ready_def upstream_def)

lemma fcAA: "Finalized finalityAA = Some \<lparr>Epoch = 100, Root = 0xAA\<rparr>"
  by (simp add: finalityAA_def)



text \<open>What the subscribers, the publication and the serving update leave alone.\<close>

lemma handleFinalityUpdated_frame:
  "head (snd (handleFinalityUpdated checkpoint m)) = head m
   \<and> currentBundle (snd (handleFinalityUpdated checkpoint m)) = currentBundle m
   \<and> blocks (snd (handleFinalityUpdated checkpoint m)) = blocks m
   \<and> states (snd (handleFinalityUpdated checkpoint m)) = states m
   \<and> published (snd (handleFinalityUpdated checkpoint m)) = published m
   \<and> touched (snd (handleFinalityUpdated checkpoint m)) = touched m
   \<and> fetched (snd (handleFinalityUpdated checkpoint m)) = fetched m"
  by (simp add: handleFinalityUpdated_def split: option.splits prod.splits)

lemma spec_backfillSlot_frame:
  "head (snd (spec_backfillSlot calc up sp gen s m)) = head m
   \<and> currentBundle (snd (spec_backfillSlot calc up sp gen s m)) = currentBundle m
   \<and> states (snd (spec_backfillSlot calc up sp gen s m)) = states m
   \<and> published (snd (spec_backfillSlot calc up sp gen s m)) = published m
   \<and> bundleDownloader (snd (spec_backfillSlot calc up sp gen s m)) = bundleDownloader m"
  by (simp add: spec_backfillSlot_def touch_def Let_def split: sum.splits option.splits prod.splits)

lemma spec_backfill_frame:
  "head (snd (spec_backfill (spec_backfillSlot calc up sp gen) ss m)) = head m
   \<and> currentBundle (snd (spec_backfill (spec_backfillSlot calc up sp gen) ss m)) = currentBundle m
   \<and> states (snd (spec_backfill (spec_backfillSlot calc up sp gen) ss m)) = states m
   \<and> published (snd (spec_backfill (spec_backfillSlot calc up sp gen) ss m)) = published m
   \<and> bundleDownloader (snd (spec_backfill (spec_backfillSlot calc up sp gen) ss m)) = bundleDownloader m"
proof (induction ss arbitrary: m)
  case Nil
  show ?case by simp
next
  case (Cons s ss)
  obtain e m' where step: "spec_backfillSlot calc up sp gen s m = (e, m')"
    by (cases "spec_backfillSlot calc up sp gen s m")
  have fr: "head m' = head m \<and> currentBundle m' = currentBundle m \<and> states m' = states m
      \<and> published m' = published m \<and> bundleDownloader m' = bundleDownloader m"
    using spec_backfillSlot_frame [of calc up sp gen s m] step by simp
  show ?case
    using step fr Cons.IH [of m'] by (cases e) simp_all
qed

lemma fetchHistoricalCheckpoints_frame:
  "head (snd (fetchHistoricalCheckpoints nodes rnd calc checkpoint m)) = head m
   \<and> currentBundle (snd (fetchHistoricalCheckpoints nodes rnd calc checkpoint m)) = currentBundle m
   \<and> states (snd (fetchHistoricalCheckpoints nodes rnd calc checkpoint m)) = states m
   \<and> published (snd (fetchHistoricalCheckpoints nodes rnd calc checkpoint m)) = published m
   \<and> bundleDownloader (snd (fetchHistoricalCheckpoints nodes rnd calc checkpoint m)) = bundleDownloader m"
  by (simp add: fetchHistoricalCheckpoints_def historicalLoop_backfill spec_backfill_frame
        split: sum.splits option.splits)

lemma publish_frame:
  "head (publishFinalityCheckpointHeadUpdated nodes rnd calc checkpoint m) = head m
   \<and> currentBundle (publishFinalityCheckpointHeadUpdated nodes rnd calc checkpoint m) = currentBundle m
   \<and> states (publishFinalityCheckpointHeadUpdated nodes rnd calc checkpoint m) = states m
   \<and> published (publishFinalityCheckpointHeadUpdated nodes rnd calc checkpoint m)
       = published m @ [checkpoint]"
  using fetchHistoricalCheckpoints_frame [of nodes rnd calc checkpoint
      "snd (handleFinalityUpdated checkpoint (m\<lparr>published := published m @ [checkpoint]\<rparr>))"]
    handleFinalityUpdated_frame [of checkpoint "m\<lparr>published := published m @ [checkpoint]\<rparr>"]
  by (simp add: publishFinalityCheckpointHeadUpdated_def Let_def)

lemma updateServingCheckpoint_frame:
  "head (snd (updateServingCheckpoint C m)) = head m
   \<and> published (snd (updateServingCheckpoint C m)) = published m
   \<and> blocks (snd (updateServingCheckpoint C m)) = blocks m
   \<and> states (snd (updateServingCheckpoint C m)) = states m"
  by (auto simp: updateServingCheckpoint_def touch_def Let_def split: sum.splits option.splits)

text \<open>The tick, by what the comparison of line 159 finds.\<close>

lemma tick_head_stale:
  assumes "Majority (collectFinality nodes) = Inr maj" and "Finalized maj = Some mc"
    and "rootDiffers (head m) maj = Inr True"
  shows "checkFinality nodes rnd calc Majority m
     = (if rootDiffers (currentBundle m) maj = Inr True
        then updateServingCheckpoint maj
               (publishFinalityCheckpointHeadUpdated nodes rnd calc maj (m\<lparr>head := Some maj\<rparr>))
        else (None, publishFinalityCheckpointHeadUpdated nodes rnd calc maj (m\<lparr>head := Some maj\<rparr>)))"
proof -
  have cb: "currentBundle (publishFinalityCheckpointHeadUpdated nodes rnd calc maj (m\<lparr>head := Some maj\<rparr>))
      = currentBundle m"
    using publish_frame [of nodes rnd calc maj "m\<lparr>head := Some maj\<rparr>"] by simp
  have d: "rootDiffers (currentBundle m) maj = Inr True \<or> rootDiffers (currentBundle m) maj = Inr False"
    using assms(2) by (auto simp: rootDiffers_def split: option.splits)
  show ?thesis
    using assms d by (auto simp: checkFinality_def Let_def cb)
qed

lemma tick_head_fresh:
  assumes "Majority (collectFinality nodes) = Inr maj"
    and "rootDiffers (head m) maj = Inr False"
  shows "checkFinality nodes rnd calc Majority m
     = (if rootDiffers (currentBundle m) maj = Inr True then updateServingCheckpoint maj m
        else (None, m))"
proof -
  have fin: "Finalized maj \<noteq> None"
    using assms(2) by (auto simp: rootDiffers_def split: option.splits)
  then have d: "rootDiffers (currentBundle m) maj = Inr True \<or> rootDiffers (currentBundle m) maj = Inr False"
    by (auto simp: rootDiffers_def split: option.splits)
  show ?thesis
    using assms d by (auto simp: checkFinality_def Let_def)
qed

subsection \<open>The periodic finality check\<close>

text \<open>
  C3. On a finality check whose aggregation succeeds with a majority that names a finalized
  checkpoint: if the head is absent, has no finalized checkpoint, or has a finalized root
  other than the majority's, the head becomes the majority and exactly one event, the
  majority, is published; if the roots are equal, the head stays and nothing is published.
  The epochs play no part: a majority of a lower epoch with a new root replaces the head,
  one of a higher epoch with the same root does not.
\<close>

theorem checkFinality_head_update:
  assumes "Majority (collectFinality nodes) = Inr maj" and "Finalized maj = Some mc"
  shows "((head m = None \<or> (\<exists>h. head m = Some h \<and> Finalized h = None)
            \<or> (\<exists>h hc. head m = Some h \<and> Finalized h = Some hc \<and> Root hc \<noteq> Root mc))
          \<longrightarrow> head (snd (checkFinality nodes rnd calc Majority m)) = Some maj
              \<and> published (snd (checkFinality nodes rnd calc Majority m)) = published m @ [maj])
       \<and> ((\<exists>h hc. head m = Some h \<and> Finalized h = Some hc \<and> Root hc = Root mc)
          \<longrightarrow> head (snd (checkFinality nodes rnd calc Majority m)) = head m
              \<and> published (snd (checkFinality nodes rnd calc Majority m)) = published m)"
proof -
  have stale: "(head m = None \<or> (\<exists>h. head m = Some h \<and> Finalized h = None)
            \<or> (\<exists>h hc. head m = Some h \<and> Finalized h = Some hc \<and> Root hc \<noteq> Root mc))
          \<longrightarrow> head (snd (checkFinality nodes rnd calc Majority m)) = Some maj
              \<and> published (snd (checkFinality nodes rnd calc Majority m)) = published m @ [maj]"
  proof
    assume "head m = None \<or> (\<exists>h. head m = Some h \<and> Finalized h = None)
            \<or> (\<exists>h hc. head m = Some h \<and> Finalized h = Some hc \<and> Root hc \<noteq> Root mc)"
    then have st: "rootDiffers (head m) maj = Inr True"
      using assms(2) by (auto simp: rootDiffers_def)
    let ?m1 = "publishFinalityCheckpointHeadUpdated nodes rnd calc maj (m\<lparr>head := Some maj\<rparr>)"
    have p: "head ?m1 = Some maj" "published ?m1 = published m @ [maj]"
      using publish_frame [of nodes rnd calc maj "m\<lparr>head := Some maj\<rparr>"] by simp_all
    show "head (snd (checkFinality nodes rnd calc Majority m)) = Some maj
        \<and> published (snd (checkFinality nodes rnd calc Majority m)) = published m @ [maj]"
      unfolding tick_head_stale [of Majority nodes maj mc m rnd calc, OF assms st]
      using p updateServingCheckpoint_frame [of maj ?m1] by simp
  qed
  have fresh: "(\<exists>h hc. head m = Some h \<and> Finalized h = Some hc \<and> Root hc = Root mc)
          \<longrightarrow> head (snd (checkFinality nodes rnd calc Majority m)) = head m
              \<and> published (snd (checkFinality nodes rnd calc Majority m)) = published m"
  proof
    assume "\<exists>h hc. head m = Some h \<and> Finalized h = Some hc \<and> Root hc = Root mc"
    then have st: "rootDiffers (head m) maj = Inr False"
      using assms(2) by (auto simp: rootDiffers_def)
    show "head (snd (checkFinality nodes rnd calc Majority m)) = head m
        \<and> published (snd (checkFinality nodes rnd calc Majority m)) = published m"
      unfolding tick_head_fresh [of Majority nodes maj m rnd calc, OF assms(1) st]
      using updateServingCheckpoint_frame [of maj m] by simp
  qed
  from stale fresh show ?thesis by (rule conjI)
qed


subsection \<open>The scenarios, run\<close>

lemmas store_defs = blockAA_def blockAA_misaligned_def genesisBlock_def blockAt_def holdingAA_def
  holdingBlockOnly_def holdingMisaligned_def holdingGenesisAndAA_def downloadBundle_def Add_def
  AddState_def NewMajorityProvider_def NewBlock_def NewBeaconState_def

lemmas run_defs = loopSlots_eval handleFinalityUpdated_def AddToQueue_def updateServingCheckpoint_def
  spec_backfillSlot_def upstream_answers touch_def expireAfter_def Let_def

lemma publish_a:
  assumes "Finalized cp = Some fc"
  shows "publishFinalityCheckpointHeadUpdated [upstream ''a'' f spe] rnd calc cp m
     = snd (spec_backfill
         (spec_backfillSlot calc (upstream ''a'' f spe)
            \<lparr>SlotsPerEpoch = spe, SecondsPerSlot = 12000000000\<rparr> \<lparr>GenesisTime = 0\<rparr>)
         (historicalLoopSlots (Epoch fc * spe) spe)
         (snd (handleFinalityUpdated cp (m\<lparr>published := published m @ [cp]\<rparr>))))"
  by (simp add: publishFinalityCheckpointHeadUpdated_def Let_def
        handler_runs_backfill [OF provider_a(1) upstream_answers(1,2) assms])

lemma stale_start:
  "rootDiffers (Some \<lparr>Finalized = None, Justified = None\<rparr>) maj = Inr True"
  by (simp add: rootDiffers_def)

lemma servingAA_run:
  "servingAA = snd (updateServingCheckpoint finalityAA
      (publishFinalityCheckpointHeadUpdated [upstream ''a'' finalityAA 32] 0 (expireAfter 0) finalityAA
         (holdingAA\<lparr>head := Some finalityAA\<rparr>)))"
proof -
  have h: "head holdingAA = Some \<lparr>Finalized = None, Justified = None\<rparr>"
    "currentBundle holdingAA = Some \<lparr>Finalized = None, Justified = None\<rparr>"
    by (simp_all add: store_defs)
  show ?thesis
    unfolding servingAA_def
    by (simp add: tick_head_stale [where Majority = firstReport
          and nodes = "[upstream ''a'' finalityAA 32]" and maj = finalityAA
          and mc = "\<lparr>Epoch = 100, Root = 0xAA\<rparr>", OF agg_a fcAA] h stale_start)
qed

lemma servingAA_eval:
  "currentBundle servingAA = Some finalityAA"
  "head servingAA = Some finalityAA"
  "published servingAA = [finalityAA]"
  "GetByRoot (blocks servingAA) 0xAA = Inr (Some blockAA)"
  "StateByStateRoot (states servingAA) 0x55 = Inr (Some [1, 2, 3])"
  "touched servingAA = map ReadBlockBySlot [3168, 3136, 3104, 3072, 3040, 3008, 2976, 2944, 2912]
      @ [ReadBlockByRoot 0xAA, ReadState 0x55]"
  "queue (bundleDownloader servingAA) = [0xAA]"
  unfolding servingAA_run publish_a [OF fcAA]
  by (simp_all add: checkpoint.simps run_defs store_defs finalityAA_def)

subsection \<open>The genesis check\<close>

lemma genesisStored_iff:
  "fst (genesisStored m) \<longleftrightarrow>
     (\<exists>blk sr st. GetBySlot (blocks m) 0 = Inr (Some blk) \<and> StateRoot blk = Inr sr
        \<and> StateByStateRoot (states m) sr = Inr (Some st))"
  by (auto simp: genesisStored_def touch_def Let_def split: sum.splits option.splits)

lemma genesisStored_frame:
  "fetched (snd (genesisStored m)) = fetched m
   \<and> bundleDownloader (snd (genesisStored m)) = bundleDownloader m"
  by (auto simp: genesisStored_def touch_def Let_def split: sum.splits option.splits)

lemma checkGenesis_stored:
  assumes "fst (genesisStored m)"
  shows "fst (checkGenesis nodes rnd m) = None
       \<and> fetched (snd (checkGenesis nodes rnd m)) = fetched m
       \<and> bundleDownloader (snd (checkGenesis nodes rnd m)) = bundleDownloader m"
proof -
  obtain m1 where g: "genesisStored m = (True, m1)"
    using assms by (cases "genesisStored m") auto
  show ?thesis using genesisStored_frame [of m] g by (simp add: checkGenesis_def)
qed

lemma checkGenesis_no_nodes:
  assumes "\<not> fst (genesisStored m)" and "Ready nodes = []"
  shows "fst (checkGenesis nodes rnd m) = Some NoNodesReady
       \<and> fetched (snd (checkGenesis nodes rnd m)) = fetched m
       \<and> bundleDownloader (snd (checkGenesis nodes rnd m)) = bundleDownloader m"
proof -
  obtain m1 where g: "genesisStored m = (False, m1)"
    using assms(1) by (cases "genesisStored m") auto
  show ?thesis using genesisStored_frame [of m] g assms(2) by (simp add: checkGenesis_def)
qed

lemma checkGenesis_fetches:
  assumes "\<not> fst (genesisStored m)" and "Ready nodes \<noteq> []"
  shows "fetched (snd (checkGenesis nodes rnd m))
           = fetched m @ [(Name (Ready nodes ! (rnd mod length (Ready nodes))), GenesisId)]"
proof -
  obtain m1 where g: "genesisStored m = (False, m1)"
    using assms(1) by (cases "genesisStored m") auto
  show ?thesis using genesisStored_frame [of m] g assms(2)
    by (simp add: checkGenesis_def RandomNode_def Let_def split: sum.splits option.splits prod.splits)
qed

lemma checkGenesis_enqueues:
  assumes "\<not> fst (genesisStored m)" and "Ready nodes \<noteq> []"
    and "FetchBlock (Ready nodes ! (rnd mod length (Ready nodes))) GenesisId = Inr (Some g)"
    and "BlockRoot g = Inr r"
  shows "(r \<in> set (queue (bundleDownloader m))
            \<longrightarrow> fst (checkGenesis nodes rnd m) = None
                \<and> bundleDownloader (snd (checkGenesis nodes rnd m)) = bundleDownloader m)
       \<and> (r \<notin> set (queue (bundleDownloader m))
            \<longrightarrow> (fst (checkGenesis nodes rnd m), bundleDownloader (snd (checkGenesis nodes rnd m)))
                  = AddToQueue r (bundleDownloader m))"
proof -
  obtain m1 where g: "genesisStored m = (False, m1)"
    using assms(1) by (cases "genesisStored m") auto
  show ?thesis using genesisStored_frame [of m] g assms(2-4)
    by (simp add: checkGenesis_def RandomNode_def ExistsInQueue_def Let_def split: prod.splits option.splits)
qed


text \<open>
  C8. checkGenesis returns nil, asks no upstream and enqueues nothing when the block store
  has a block at slot 0 and the state store has that block's state. Otherwise it fails with
  "no nodes ready" when no node is ready; and else it fetches the genesis block from the
  ready node the random draw lands on and, with the block's root in hand, leaves the queue
  alone if the root is in it and calls AddToQueue for the root if not.
\<close>

theorem checkGenesis_behaviour:
  "((\<exists>blk sr st. GetBySlot (blocks m) 0 = Inr (Some blk) \<and> StateRoot blk = Inr sr
        \<and> StateByStateRoot (states m) sr = Inr (Some st))
      \<longrightarrow> fst (checkGenesis nodes rnd m) = None
          \<and> fetched (snd (checkGenesis nodes rnd m)) = fetched m
          \<and> bundleDownloader (snd (checkGenesis nodes rnd m)) = bundleDownloader m)
   \<and> (\<not> (\<exists>blk sr st. GetBySlot (blocks m) 0 = Inr (Some blk) \<and> StateRoot blk = Inr sr
        \<and> StateByStateRoot (states m) sr = Inr (Some st))
      \<longrightarrow> (Ready nodes = []
            \<longrightarrow> fst (checkGenesis nodes rnd m) = Some NoNodesReady
                \<and> fetched (snd (checkGenesis nodes rnd m)) = fetched m
                \<and> bundleDownloader (snd (checkGenesis nodes rnd m)) = bundleDownloader m)
        \<and> (Ready nodes \<noteq> []
            \<longrightarrow> fetched (snd (checkGenesis nodes rnd m))
                  = fetched m @ [(Name (Ready nodes ! (rnd mod length (Ready nodes))), GenesisId)]
                \<and> (\<forall>g r. FetchBlock (Ready nodes ! (rnd mod length (Ready nodes))) GenesisId = Inr (Some g)
                        \<and> BlockRoot g = Inr r
                      \<longrightarrow> (r \<in> set (queue (bundleDownloader m))
                            \<longrightarrow> fst (checkGenesis nodes rnd m) = None
                                \<and> bundleDownloader (snd (checkGenesis nodes rnd m)) = bundleDownloader m)
                          \<and> (r \<notin> set (queue (bundleDownloader m))
                            \<longrightarrow> (fst (checkGenesis nodes rnd m), bundleDownloader (snd (checkGenesis nodes rnd m)))
                                  = AddToQueue r (bundleDownloader m)))))"
  unfolding genesisStored_iff [symmetric]
  using checkGenesis_stored [of m nodes rnd] checkGenesis_no_nodes [of m nodes rnd]
    checkGenesis_fetches [of m nodes rnd] checkGenesis_enqueues [of m nodes rnd]
  by blast

theorem checkGenesis_behaviour_witness:
  "fst (checkGenesis [upstream ''a'' finalityAA 32] 5 holdingGenesisAndAA) = None
   \<and> fetched (snd (checkGenesis [upstream ''a'' finalityAA 32] 5 holdingGenesisAndAA)) = []
   \<and> queue (bundleDownloader (snd (checkGenesis [upstream ''a'' finalityAA 32] 5 holdingGenesisAndAA))) = []
   \<and> fst (checkGenesis [] 5 (NewMajorityProvider 16)) = Some NoNodesReady
   \<and> fst (checkGenesis [upstream ''a'' finalityAA 32] 5 (NewMajorityProvider 16)) = None
   \<and> fetched genesisQueued = [(''a'', GenesisId)]
   \<and> queue (bundleDownloader genesisQueued) = [0x01]
   \<and> fst (checkGenesis [upstream ''a'' finalityAA 32] 5 genesisQueued) = None
   \<and> fetched (snd (checkGenesis [upstream ''a'' finalityAA 32] 5 genesisQueued))
        = [(''a'', GenesisId), (''a'', GenesisId)]
   \<and> queue (bundleDownloader (snd (checkGenesis [upstream ''a'' finalityAA 32] 5 genesisQueued))) = [0x01]"
proof -
  have rdy: "Ready [upstream ''a'' finalityAA 32] = [upstream ''a'' finalityAA 32]" "Ready [] = []"
    by (simp_all add: Ready_def upstream_def)
  have up: "FetchBlock (upstream ''a'' finalityAA 32) GenesisId = Inr (Some genesisBlock)"
    "Name (upstream ''a'' finalityAA 32) = ''a''" "BlockRoot genesisBlock = Inr 0x01"
    by (simp_all add: upstream_def genesisBlock_def)
  have a: "fst (checkGenesis [upstream ''a'' finalityAA 32] 5 holdingGenesisAndAA) = None
     \<and> fetched (snd (checkGenesis [upstream ''a'' finalityAA 32] 5 holdingGenesisAndAA)) = []
     \<and> queue (bundleDownloader (snd (checkGenesis [upstream ''a'' finalityAA 32] 5 holdingGenesisAndAA))) = []"
    using checkGenesis_behaviour [of holdingGenesisAndAA "[upstream ''a'' finalityAA 32]" 5]
    by (simp add: scenario_defs)
  have b: "fst (checkGenesis [] 5 (NewMajorityProvider 16)) = Some NoNodesReady"
    using checkGenesis_behaviour [of "NewMajorityProvider 16" "[]" 5] rdy
    by (simp add: NewMajorityProvider_def NewBlock_def)
  have c: "fst (checkGenesis [upstream ''a'' finalityAA 32] 5 (NewMajorityProvider 16)) = None
     \<and> fetched genesisQueued = [(''a'', GenesisId)]
     \<and> queue (bundleDownloader genesisQueued) = [0x01]"
    using checkGenesis_behaviour [of "NewMajorityProvider 16" "[upstream ''a'' finalityAA 32]" 5] rdy up
    by (simp add: genesisQueued_def NewMajorityProvider_def NewBlock_def AddToQueue_def)
  have q: "GetBySlot (blocks genesisQueued) 0 = Inr None"
    by (simp add: genesisQueued_def checkGenesis_def genesisStored_def touch_def RandomNode_def
        ExistsInQueue_def AddToQueue_def Let_def rdy up NewMajorityProvider_def NewBlock_def NewBeaconState_def)
  have d: "fst (checkGenesis [upstream ''a'' finalityAA 32] 5 genesisQueued) = None
     \<and> fetched (snd (checkGenesis [upstream ''a'' finalityAA 32] 5 genesisQueued))
          = [(''a'', GenesisId), (''a'', GenesisId)]
     \<and> queue (bundleDownloader (snd (checkGenesis [upstream ''a'' finalityAA 32] 5 genesisQueued))) = [0x01]"
    using checkGenesis_behaviour [of genesisQueued "[upstream ''a'' finalityAA 32]" 5] rdy up c q
    by simp
  from a b c d show ?thesis by simp
qed

subsection \<open>The scenarios of the head update and of the serving no-op\<close>

theorem checkFinality_head_update_witness:
  "head (snd (checkFinality [upstream ''a'' finalityAA 32] 0 (expireAfter 0) firstReport holdingAA))
     = Some finalityAA
   \<and> published (snd (checkFinality [upstream ''a'' finalityAA 32] 0 (expireAfter 0) firstReport holdingAA))
     = [finalityAA]
   \<and> head servingAA = Some finalityAA
   \<and> head (snd (checkFinality [upstream ''b'' finalityBB 32] 0 (expireAfter 0) firstReport servingAA))
     = Some finalityBB
   \<and> published (snd (checkFinality [upstream ''b'' finalityBB 32] 0 (expireAfter 0) firstReport servingAA))
     = [finalityAA, finalityBB]
   \<and> head (snd (checkFinality [upstream ''a'' finalityAA_later 32] 0 (expireAfter 0) firstReport servingAA))
     = Some finalityAA
   \<and> published (snd (checkFinality [upstream ''a'' finalityAA_later 32] 0 (expireAfter 0) firstReport
        servingAA)) = [finalityAA]"
proof -
  have h0: "head holdingAA = Some \<lparr>Finalized = None, Justified = None\<rparr>"
    by (simp add: scenario_defs)
  have p0: "published holdingAA = []"
    by (simp add: scenario_defs)
  note h1 = servingAA_eval(2)
  note p1 = servingAA_eval(3)
  have a: "head (snd (checkFinality [upstream ''a'' finalityAA 32] 0 (expireAfter 0) firstReport holdingAA))
       = Some finalityAA
     \<and> published (snd (checkFinality [upstream ''a'' finalityAA 32] 0 (expireAfter 0) firstReport holdingAA))
       = [finalityAA]"
    using checkFinality_head_update [where Majority = firstReport and nodes = "[upstream ''a'' finalityAA 32]"
        and maj = finalityAA and m = holdingAA and mc = "\<lparr>Epoch = 100, Root = 0xAA\<rparr>"
        and rnd = 0 and calc = "expireAfter 0"] agg_a h0 p0
    by (simp add: finalityAA_def)
  have b: "head (snd (checkFinality [upstream ''b'' finalityBB 32] 0 (expireAfter 0) firstReport servingAA))
       = Some finalityBB
     \<and> published (snd (checkFinality [upstream ''b'' finalityBB 32] 0 (expireAfter 0) firstReport servingAA))
       = [finalityAA, finalityBB]"
    using checkFinality_head_update [where Majority = firstReport and nodes = "[upstream ''b'' finalityBB 32]"
        and maj = finalityBB and m = servingAA and mc = "\<lparr>Epoch = 99, Root = 0xBB\<rparr>"
        and rnd = 0 and calc = "expireAfter 0"] agg_a h1 p1
    by (simp add: finalityAA_def finalityBB_def)
  have c: "head (snd (checkFinality [upstream ''a'' finalityAA_later 32] 0 (expireAfter 0) firstReport
          servingAA)) = Some finalityAA
     \<and> published (snd (checkFinality [upstream ''a'' finalityAA_later 32] 0 (expireAfter 0) firstReport
          servingAA)) = [finalityAA]"
    using checkFinality_head_update [where Majority = firstReport
        and nodes = "[upstream ''a'' finalityAA_later 32]"
        and maj = finalityAA_later and m = servingAA and mc = "\<lparr>Epoch = 101, Root = 0xAA\<rparr>"
        and rnd = 0 and calc = "expireAfter 0"] agg_a h1 p1
    by (simp add: finalityAA_def finalityAA_later_def)
  from a b c h1 show ?thesis by simp
qed

theorem updateServingCheckpoint_current_noop_witness:
  "currentBundle servingAA = Some finalityAA
   \<and> fst (updateServingCheckpoint finalityAA servingAA) = None
   \<and> currentBundle (snd (updateServingCheckpoint finalityAA servingAA)) = currentBundle servingAA
   \<and> blocks (snd (updateServingCheckpoint finalityAA servingAA)) = blocks servingAA
   \<and> states (snd (updateServingCheckpoint finalityAA servingAA)) = states servingAA"
proof -
  note cb = servingAA_eval(1)
  have ok: "fst (updateServingCheckpoint finalityAA servingAA) = None"
    by (simp add: updateServingCheckpoint_def touch_def Let_def fcAA servingAA_eval(4,5) blockAA_def)
  from updateServingCheckpoint_current_noop [OF cb] cb ok show ?thesis by simp
qed


subsection \<open>A serving update that fails\<close>

text \<open>
  What a failed serving update leaves alone, and what its outcome depends on.
\<close>

lemma updateServingCheckpoint_reads_stores:
  assumes "blocks s = blocks m" and "states s = states m"
  shows "fst (updateServingCheckpoint C s) = fst (updateServingCheckpoint C m)"
  using assms
  by (auto simp: updateServingCheckpoint_def touch_def Let_def split: sum.splits option.splits)

lemma updateServingCheckpoint_failure_frame:
  assumes "fst (updateServingCheckpoint C m) = Some err"
  shows "head (snd (updateServingCheckpoint C m)) = head m
       \<and> currentBundle (snd (updateServingCheckpoint C m)) = currentBundle m
       \<and> blocks (snd (updateServingCheckpoint C m)) = blocks m
       \<and> states (snd (updateServingCheckpoint C m)) = states m
       \<and> published (snd (updateServingCheckpoint C m)) = published m"
  using assms
  by (auto simp: updateServingCheckpoint_def touch_def Let_def split: sum.splits option.splits if_splits)

lemma tick_first_failure:
  assumes "Majority (collectFinality nodes) = Inr maj" and "Finalized maj = Some mc"
    and "rootDiffers (head m) maj = Inr True" and "rootDiffers (currentBundle m) maj = Inr True"
    and "fst (updateServingCheckpoint maj
            (publishFinalityCheckpointHeadUpdated nodes rnd calc maj (m\<lparr>head := Some maj\<rparr>))) = Some err"
  shows "fst (checkFinality nodes rnd calc Majority m) = Some err
       \<and> head (snd (checkFinality nodes rnd calc Majority m)) = Some maj
       \<and> published (snd (checkFinality nodes rnd calc Majority m)) = published m @ [maj]
       \<and> currentBundle (snd (checkFinality nodes rnd calc Majority m)) = currentBundle m
       \<and> blocks (snd (checkFinality nodes rnd calc Majority m))
           = blocks (publishFinalityCheckpointHeadUpdated nodes rnd calc maj (m\<lparr>head := Some maj\<rparr>))
       \<and> states (snd (checkFinality nodes rnd calc Majority m))
           = states (publishFinalityCheckpointHeadUpdated nodes rnd calc maj (m\<lparr>head := Some maj\<rparr>))"
proof -
  let ?m1 = "publishFinalityCheckpointHeadUpdated nodes rnd calc maj (m\<lparr>head := Some maj\<rparr>)"
  have st: "currentBundle ?m1 = currentBundle m" "head ?m1 = Some maj"
    "published ?m1 = published m @ [maj]"
    using publish_frame [of nodes rnd calc maj "m\<lparr>head := Some maj\<rparr>"] by simp_all
  have run: "checkFinality nodes rnd calc Majority m = updateServingCheckpoint maj ?m1"
    using tick_head_stale [where Majority = Majority and nodes = nodes and maj = maj and mc = mc
        and m = m and rnd = rnd and calc = calc] assms(1-4) by simp
  show ?thesis
    using updateServingCheckpoint_failure_frame [OF assms(5)] assms(5) st run by simp
qed

lemma tick_again_failure:
  assumes "Majority (collectFinality nodes) = Inr maj" and "Finalized maj = Some mc"
    and "head s = Some maj" and "rootDiffers (currentBundle s) maj = Inr True"
    and "fst (updateServingCheckpoint maj s) = Some err"
  shows "fst (checkFinality nodes rnd calc Majority s) = Some err
       \<and> head (snd (checkFinality nodes rnd calc Majority s)) = Some maj
       \<and> published (snd (checkFinality nodes rnd calc Majority s)) = published s
       \<and> currentBundle (snd (checkFinality nodes rnd calc Majority s)) = currentBundle s
       \<and> blocks (snd (checkFinality nodes rnd calc Majority s)) = blocks s
       \<and> states (snd (checkFinality nodes rnd calc Majority s)) = states s"
proof -
  have hd: "rootDiffers (head s) maj = Inr False"
    using assms(2,3) by (simp add: rootDiffers_def)
  have run: "checkFinality nodes rnd calc Majority s = updateServingCheckpoint maj s"
    using tick_head_fresh [where Majority = Majority and nodes = nodes and maj = maj
        and m = s and rnd = rnd and calc = calc] assms(1,4) hd by simp
  show ?thesis
    using updateServingCheckpoint_failure_frame [OF assms(5)] assms(3,5) run by simp
qed

lemma ticks_stay_failed:
  assumes "Majority (collectFinality nodes) = Inr maj" and "Finalized maj = Some mc"
    and "rootDiffers (head m) maj = Inr True" and "rootDiffers (currentBundle m) maj = Inr True"
    and "fst (updateServingCheckpoint maj
            (publishFinalityCheckpointHeadUpdated nodes rnd calc maj (m\<lparr>head := Some maj\<rparr>))) = Some err"
  shows "head (((\<lambda>s. snd (checkFinality nodes rnd calc Majority s)) ^^ Suc n) m) = Some maj
       \<and> currentBundle (((\<lambda>s. snd (checkFinality nodes rnd calc Majority s)) ^^ Suc n) m) = currentBundle m
       \<and> published (((\<lambda>s. snd (checkFinality nodes rnd calc Majority s)) ^^ Suc n) m) = published m @ [maj]
       \<and> blocks (((\<lambda>s. snd (checkFinality nodes rnd calc Majority s)) ^^ Suc n) m)
           = blocks (publishFinalityCheckpointHeadUpdated nodes rnd calc maj (m\<lparr>head := Some maj\<rparr>))
       \<and> states (((\<lambda>s. snd (checkFinality nodes rnd calc Majority s)) ^^ Suc n) m)
           = states (publishFinalityCheckpointHeadUpdated nodes rnd calc maj (m\<lparr>head := Some maj\<rparr>))"
proof (induction n)
  case 0
  show ?case
    using tick_first_failure [where Majority = Majority and nodes = nodes and maj = maj and mc = mc
        and m = m and err = err and rnd = rnd and calc = calc] assms by simp
next
  case (Suc n)
  let ?s = "((\<lambda>s. snd (checkFinality nodes rnd calc Majority s)) ^^ Suc n) m"
  let ?m1 = "publishFinalityCheckpointHeadUpdated nodes rnd calc maj (m\<lparr>head := Some maj\<rparr>)"
  have f: "fst (updateServingCheckpoint maj ?s) = Some err"
    using updateServingCheckpoint_reads_stores [of ?s ?m1 maj] Suc assms(5) by simp
  have cb: "rootDiffers (currentBundle ?s) maj = Inr True"
    using Suc assms(4) by simp
  have hd: "head ?s = Some maj" using Suc by simp
  from tick_again_failure [where Majority = Majority and nodes = nodes and maj = maj and mc = mc
      and s = ?s and err = err and rnd = rnd and calc = calc] assms(1,2) hd cb f Suc
  show ?case by simp
qed


text \<open>
  C10. On a tick whose majority root differs from the head's and from the served one, the
  head becomes the majority and the event is published, the subscribers run, and then the
  serving update is tried on the stores as the subscribers left them. When it fails there,
  nothing undoes the head update: checkFinality returns the error of
  updateServingCheckpoint, the head is the majority, the event stays published and
  currentBundle is what it was. As long as the reports and the stores stay the same, every
  further tick fails the same way, so head and currentBundle keep naming different roots.
\<close>

theorem checkFinality_serving_failure_keeps_head:
  assumes "Majority (collectFinality nodes) = Inr maj" and "Finalized maj = Some mc"
    and "rootDiffers (head m) maj = Inr True" and "rootDiffers (currentBundle m) maj = Inr True"
    and "fst (updateServingCheckpoint maj
            (publishFinalityCheckpointHeadUpdated nodes rnd calc maj (m\<lparr>head := Some maj\<rparr>))) = Some err"
  shows "fst (checkFinality nodes rnd calc Majority m) = Some err
       \<and> head (snd (checkFinality nodes rnd calc Majority m)) = Some maj
       \<and> published (snd (checkFinality nodes rnd calc Majority m)) = published m @ [maj]
       \<and> currentBundle (snd (checkFinality nodes rnd calc Majority m)) = currentBundle m
       \<and> (\<forall>n. head (((\<lambda>s. snd (checkFinality nodes rnd calc Majority s)) ^^ Suc n) m) = Some maj
              \<and> currentBundle (((\<lambda>s. snd (checkFinality nodes rnd calc Majority s)) ^^ Suc n) m)
                  = currentBundle m
              \<and> published (((\<lambda>s. snd (checkFinality nodes rnd calc Majority s)) ^^ Suc n) m)
                  = published m @ [maj]
              \<and> fst (checkFinality nodes rnd calc Majority
                       (((\<lambda>s. snd (checkFinality nodes rnd calc Majority s)) ^^ Suc n) m)) = Some err)"
proof -
  let ?m1 = "publishFinalityCheckpointHeadUpdated nodes rnd calc maj (m\<lparr>head := Some maj\<rparr>)"
  have later: "fst (checkFinality nodes rnd calc Majority
                  (((\<lambda>s. snd (checkFinality nodes rnd calc Majority s)) ^^ Suc n) m)) = Some err" for n
  proof -
    let ?s = "((\<lambda>s. snd (checkFinality nodes rnd calc Majority s)) ^^ Suc n) m"
    have st: "head ?s = Some maj \<and> currentBundle ?s = currentBundle m \<and> blocks ?s = blocks ?m1
        \<and> states ?s = states ?m1"
      using ticks_stay_failed [where Majority = Majority and nodes = nodes and maj = maj and mc = mc
        and m = m and err = err and n = n and rnd = rnd and calc = calc] assms by simp
    have f: "fst (updateServingCheckpoint maj ?s) = Some err"
      using updateServingCheckpoint_reads_stores [of ?s ?m1 maj] st assms(5) by simp
    have cb: "rootDiffers (currentBundle ?s) maj = Inr True"
      using st assms(4) by simp
    have hd: "head ?s = Some maj" using st by simp
    from tick_again_failure [where Majority = Majority and nodes = nodes and maj = maj and mc = mc
      and s = ?s and err = err and rnd = rnd and calc = calc] assms(1,2) hd cb f show ?thesis by simp
  qed
  show ?thesis
    using tick_first_failure [where Majority = Majority and nodes = nodes and maj = maj and mc = mc
        and m = m and err = err and rnd = rnd and calc = calc]
      ticks_stay_failed [where Majority = Majority and nodes = nodes and maj = maj and mc = mc
        and m = m and err = err and rnd = rnd and calc = calc] assms later by simp
qed

theorem checkFinality_serving_failure_keeps_head_witness:
  "fst (checkFinality [upstream ''a'' finalityAA 32] 0 (expireAfter 0) firstReport (NewMajorityProvider 16))
     = Some BlockNotFound
   \<and> head (snd (checkFinality [upstream ''a'' finalityAA 32] 0 (expireAfter 0) firstReport
        (NewMajorityProvider 16))) = Some finalityAA
   \<and> published (snd (checkFinality [upstream ''a'' finalityAA 32] 0 (expireAfter 0) firstReport
        (NewMajorityProvider 16))) = [finalityAA]
   \<and> currentBundle (snd (checkFinality [upstream ''a'' finalityAA 32] 0 (expireAfter 0) firstReport
        (NewMajorityProvider 16))) = Some \<lparr>Finalized = None, Justified = None\<rparr>
   \<and> head (((\<lambda>s. snd (checkFinality [upstream ''a'' finalityAA 32] 0 (expireAfter 0) firstReport s)) ^^ Suc 2)
        (NewMajorityProvider 16)) = Some finalityAA
   \<and> currentBundle (((\<lambda>s. snd (checkFinality [upstream ''a'' finalityAA 32] 0 (expireAfter 0) firstReport s))
        ^^ Suc 2) (NewMajorityProvider 16)) = Some \<lparr>Finalized = None, Justified = None\<rparr>"
proof -
  have hd: "rootDiffers (head (NewMajorityProvider 16)) finalityAA = Inr True"
    by (simp add: rootDiffers_def NewMajorityProvider_def)
  have cb: "rootDiffers (currentBundle (NewMajorityProvider 16)) finalityAA = Inr True"
    by (simp add: rootDiffers_def NewMajorityProvider_def)
  have f: "fst (updateServingCheckpoint finalityAA
      (publishFinalityCheckpointHeadUpdated [upstream ''a'' finalityAA 32] 0 (expireAfter 0) finalityAA
         ((NewMajorityProvider 16)\<lparr>head := Some finalityAA\<rparr>))) = Some BlockNotFound"
    unfolding publish_a [OF fcAA]
    by (simp add: checkpoint.simps run_defs store_defs finalityAA_def)
  have init: "currentBundle (NewMajorityProvider 16) = Some \<lparr>Finalized = None, Justified = None\<rparr>"
    "published (NewMajorityProvider 16) = []"
    by (simp_all add: NewMajorityProvider_def)
  note T = checkFinality_serving_failure_keeps_head [where Majority = firstReport
      and nodes = "[upstream ''a'' finalityAA 32]" and maj = finalityAA
      and mc = "\<lparr>Epoch = 100, Root = 0xAA\<rparr>" and m = "NewMajorityProvider 16"
      and err = BlockNotFound and rnd = 0 and calc = "expireAfter 0", OF agg_a fcAA hd cb f]
  from T have first: "fst (checkFinality [upstream ''a'' finalityAA 32] 0 (expireAfter 0) firstReport
         (NewMajorityProvider 16)) = Some BlockNotFound
     \<and> head (snd (checkFinality [upstream ''a'' finalityAA 32] 0 (expireAfter 0) firstReport
         (NewMajorityProvider 16))) = Some finalityAA
     \<and> published (snd (checkFinality [upstream ''a'' finalityAA 32] 0 (expireAfter 0) firstReport
         (NewMajorityProvider 16))) = published (NewMajorityProvider 16) @ [finalityAA]
     \<and> currentBundle (snd (checkFinality [upstream ''a'' finalityAA 32] 0 (expireAfter 0) firstReport
         (NewMajorityProvider 16))) = currentBundle (NewMajorityProvider 16)"
    by blast
  from T have later: "head (((\<lambda>s. snd (checkFinality [upstream ''a'' finalityAA 32] 0 (expireAfter 0)
         firstReport s)) ^^ Suc 2) (NewMajorityProvider 16)) = Some finalityAA
     \<and> currentBundle (((\<lambda>s. snd (checkFinality [upstream ''a'' finalityAA 32] 0 (expireAfter 0)
         firstReport s)) ^^ Suc 2) (NewMajorityProvider 16)) = currentBundle (NewMajorityProvider 16)"
    by blast
  from first later show ?thesis
    unfolding init by simp
qed


subsection \<open>The genesis entries and the periodic tick\<close>

text \<open>
  The state the serving update of a tick starts from, and the lookups a tick makes: those
  of the back-fill it publishes to, which leaves slot 0 out, and those of the serving
  update, by root and by state root.
\<close>

lemma tick_outcome:
  "\<exists>s. (s = m \<or> (\<exists>maj. s = publishFinalityCheckpointHeadUpdated nodes rnd calc maj (m\<lparr>head := Some maj\<rparr>)))
       \<and> (snd (checkFinality nodes rnd calc Majority m) = s
           \<or> (\<exists>C. snd (checkFinality nodes rnd calc Majority m) = snd (updateServingCheckpoint C s)))"
proof (cases "Majority (collectFinality nodes)")
  case (Inl err)
  then have "snd (checkFinality nodes rnd calc Majority m) = m"
    by (simp add: checkFinality_def)
  then show ?thesis by blast
next
  case (Inr maj)
  show ?thesis
  proof (cases "rootDiffers (head m) maj")
    case (Inl e)
    then have "snd (checkFinality nodes rnd calc Majority m) = m"
      using Inr by (simp add: checkFinality_def)
    then show ?thesis by blast
  next
    case d1: (Inr headStale)
    define m1 where "m1 = (if headStale
        then publishFinalityCheckpointHeadUpdated nodes rnd calc maj (m\<lparr>head := Some maj\<rparr>) else m)"
    have which: "m1 = m \<or> (\<exists>maj. m1 = publishFinalityCheckpointHeadUpdated nodes rnd calc maj
        (m\<lparr>head := Some maj\<rparr>))"
      by (auto simp: m1_def)
    have "snd (checkFinality nodes rnd calc Majority m) = m1
        \<or> snd (checkFinality nodes rnd calc Majority m) = snd (updateServingCheckpoint maj m1)"
      using Inr d1 by (simp add: checkFinality_def Let_def m1_def [symmetric] split: sum.splits)
    then show ?thesis using which by blast
  qed
qed

lemma spec_backfillSlot_reads:
  "\<exists>rs. touched (snd (spec_backfillSlot calc up sp gen s m)) = touched m @ rs
      \<and> ReadBlockBySlot 0 \<notin> set rs"
  by (auto simp: spec_backfillSlot_def touch_def Let_def split: sum.splits option.splits prod.splits)

lemma spec_backfill_reads:
  "\<exists>rs. touched (snd (spec_backfill (spec_backfillSlot calc up sp gen) ss m)) = touched m @ rs
      \<and> ReadBlockBySlot 0 \<notin> set rs"
proof (induction ss arbitrary: m)
  case Nil
  show ?case by simp
next
  case (Cons s ss)
  obtain e m' where step: "spec_backfillSlot calc up sp gen s m = (e, m')"
    by (cases "spec_backfillSlot calc up sp gen s m")
  from spec_backfillSlot_reads [of calc up sp gen s m] step
  obtain rs where rs: "touched m' = touched m @ rs" "ReadBlockBySlot 0 \<notin> set rs" by auto
  show ?case
  proof (cases e)
    case (Some err)
    then show ?thesis using step rs by simp
  next
    case None
    from Cons.IH [of m'] obtain rs' where rs':
      "touched (snd (spec_backfill (spec_backfillSlot calc up sp gen) ss m')) = touched m' @ rs'"
      "ReadBlockBySlot 0 \<notin> set rs'" by auto
    have "touched (snd (spec_backfill (spec_backfillSlot calc up sp gen) (s # ss) m))
        = touched m @ (rs @ rs')"
      using step None rs'(1) rs(1) by simp
    moreover have "ReadBlockBySlot 0 \<notin> set (rs @ rs')" using rs(2) rs'(2) by simp
    ultimately show ?thesis by blast
  qed
qed

lemma fetchHistoricalCheckpoints_reads:
  "\<exists>rs. touched (snd (fetchHistoricalCheckpoints nodes rnd calc checkpoint m)) = touched m @ rs
      \<and> ReadBlockBySlot 0 \<notin> set rs"
  using spec_backfill_reads
  by (simp add: fetchHistoricalCheckpoints_def historicalLoop_backfill split: sum.splits option.splits)

lemma publish_reads:
  "\<exists>rs. touched (publishFinalityCheckpointHeadUpdated nodes rnd calc checkpoint m) = touched m @ rs
      \<and> ReadBlockBySlot 0 \<notin> set rs"
  using fetchHistoricalCheckpoints_reads [of nodes rnd calc checkpoint
      "snd (handleFinalityUpdated checkpoint (m\<lparr>published := published m @ [checkpoint]\<rparr>))"]
    handleFinalityUpdated_frame [of checkpoint "m\<lparr>published := published m @ [checkpoint]\<rparr>"]
  by (simp add: publishFinalityCheckpointHeadUpdated_def Let_def)

lemma updateServingCheckpoint_reads:
  "\<exists>rs. touched (snd (updateServingCheckpoint C m)) = touched m @ rs \<and> ReadBlockBySlot 0 \<notin> set rs"
  by (auto simp: updateServingCheckpoint_def touch_def Let_def split: sum.splits option.splits)

lemma tick_reads:
  "\<exists>rs. touched (snd (checkFinality nodes rnd calc Majority m)) = touched m @ rs
      \<and> ReadBlockBySlot 0 \<notin> set rs"
proof -
  from tick_outcome [of m nodes rnd calc Majority]
  obtain s where s: "s = m \<or> (\<exists>maj. s = publishFinalityCheckpointHeadUpdated nodes rnd calc maj
        (m\<lparr>head := Some maj\<rparr>))"
    and out: "snd (checkFinality nodes rnd calc Majority m) = s
           \<or> (\<exists>C. snd (checkFinality nodes rnd calc Majority m) = snd (updateServingCheckpoint C s))"
    by blast
  have "\<exists>rs. touched s = touched m @ rs \<and> ReadBlockBySlot 0 \<notin> set rs"
  proof -
    from s show ?thesis
    proof
      assume "s = m" then show ?thesis by simp
    next
      assume "\<exists>maj. s = publishFinalityCheckpointHeadUpdated nodes rnd calc maj (m\<lparr>head := Some maj\<rparr>)"
      then obtain maj where "s = publishFinalityCheckpointHeadUpdated nodes rnd calc maj
          (m\<lparr>head := Some maj\<rparr>)" ..
      then show ?thesis
        using publish_reads [of nodes rnd calc maj "m\<lparr>head := Some maj\<rparr>"] by simp
    qed
  qed
  then obtain rs where rs: "touched s = touched m @ rs" "ReadBlockBySlot 0 \<notin> set rs" by auto
  from out show ?thesis
  proof
    assume "snd (checkFinality nodes rnd calc Majority m) = s"
    then show ?thesis using rs by auto
  next
    assume "\<exists>C. snd (checkFinality nodes rnd calc Majority m) = snd (updateServingCheckpoint C s)"
    then obtain C where C: "snd (checkFinality nodes rnd calc Majority m)
        = snd (updateServingCheckpoint C s)" ..
    from updateServingCheckpoint_reads [of C s] obtain rs' where
      rs': "touched (snd (updateServingCheckpoint C s)) = touched s @ rs'" "ReadBlockBySlot 0 \<notin> set rs'"
      by auto
    have "touched (snd (checkFinality nodes rnd calc Majority m)) = touched m @ (rs @ rs')"
      unfolding C rs'(1) rs(1) by simp
    moreover have "ReadBlockBySlot 0 \<notin> set (rs @ rs')" using rs(2) rs'(2) by simp
    ultimately show ?thesis by blast
  qed
qed

lemma stale_tick_a:
  assumes "head m = Some \<lparr>Finalized = None, Justified = None\<rparr>"
    and "currentBundle m = Some \<lparr>Finalized = None, Justified = None\<rparr>"
  shows "checkFinality [upstream ''a'' finalityAA 32] 0 (expireAfter 0) firstReport m
     = updateServingCheckpoint finalityAA
        (publishFinalityCheckpointHeadUpdated [upstream ''a'' finalityAA 32] 0 (expireAfter 0) finalityAA
           (m\<lparr>head := Some finalityAA\<rparr>))"
  by (simp add: tick_head_stale [where Majority = firstReport
        and nodes = "[upstream ''a'' finalityAA 32]" and maj = finalityAA
        and mc = "\<lparr>Epoch = 100, Root = 0xAA\<rparr>", OF agg_a fcAA] assms stale_start)

lemma fresh_tick_a:
  assumes "head m = Some finalityAA" and "currentBundle m = Some finalityAA"
  shows "checkFinality [upstream ''a'' finalityAA 32] 0 (expireAfter 0) firstReport m = (None, m)"
proof -
  have d: "rootDiffers (Some finalityAA) finalityAA = Inr False"
    by (simp add: rootDiffers_def finalityAA_def)
  show ?thesis
    using tick_head_fresh [where Majority = firstReport and nodes = "[upstream ''a'' finalityAA 32]"
        and maj = finalityAA and m = m and rnd = 0 and calc = "expireAfter 0"] agg_a assms d
    by simp
qed


text \<open>
  C4. The periodic tick is checkFinality, with the subscribers its publication runs. It
  never looks up the block of slot 0, whatever the pool, the aggregator and the provider
  are. With the genesis bundle and the bundle of 0xAA in the stores, a tick on the majority
  (100, 0xAA) looks up the nine back-fill slots 3168 to 2912, the block at root 0xAA and the
  state at 0x55, and the tick after it looks nothing up: the block of slot 0 and its state at
  0x02 are not touched.
\<close>

theorem checkFinality_leaves_genesis_untouched:
  "ReadBlockBySlot 0 \<notin> set (drop (length (touched m))
        (touched (snd (checkFinality nodes rnd calc Majority m))))
   \<and> GetBySlot (blocks holdingGenesisAndAA) 0 = Inr (Some genesisBlock)
   \<and> StateByStateRoot (states holdingGenesisAndAA) 0x02 = Inr (Some [7, 7])
   \<and> touched holdingGenesisAndAA = []
   \<and> fst (checkFinality [upstream ''a'' finalityAA 32] 0 (expireAfter 0) firstReport holdingGenesisAndAA)
       = None
   \<and> touched (snd (checkFinality [upstream ''a'' finalityAA 32] 0 (expireAfter 0) firstReport
         holdingGenesisAndAA))
       = map ReadBlockBySlot [3168, 3136, 3104, 3072, 3040, 3008, 2976, 2944, 2912]
           @ [ReadBlockByRoot 0xAA, ReadState 0x55]
   \<and> touched (snd (checkFinality [upstream ''a'' finalityAA 32] 0 (expireAfter 0) firstReport
         (snd (checkFinality [upstream ''a'' finalityAA 32] 0 (expireAfter 0) firstReport
            holdingGenesisAndAA))))
       = map ReadBlockBySlot [3168, 3136, 3104, 3072, 3040, 3008, 2976, 2944, 2912]
           @ [ReadBlockByRoot 0xAA, ReadState 0x55]"
proof -
  let ?tick = "checkFinality [upstream ''a'' finalityAA 32] 0 (expireAfter 0) firstReport"
  from tick_reads [of nodes rnd calc Majority m]
  obtain rs where rs: "touched (snd (checkFinality nodes rnd calc Majority m)) = touched m @ rs"
    "ReadBlockBySlot 0 \<notin> set rs" by auto
  have a: "ReadBlockBySlot 0 \<notin> set (drop (length (touched m))
        (touched (snd (checkFinality nodes rnd calc Majority m))))"
    unfolding rs(1) using rs(2) by simp
  have b: "GetBySlot (blocks holdingGenesisAndAA) 0 = Inr (Some genesisBlock)
     \<and> StateByStateRoot (states holdingGenesisAndAA) 0x02 = Inr (Some [7, 7])
     \<and> touched holdingGenesisAndAA = []"
    by (simp add: store_defs)
  have h: "head holdingGenesisAndAA = Some \<lparr>Finalized = None, Justified = None\<rparr>"
    "currentBundle holdingGenesisAndAA = Some \<lparr>Finalized = None, Justified = None\<rparr>"
    by (simp_all add: store_defs)
  have c: "fst (?tick holdingGenesisAndAA) = None"
    "touched (snd (?tick holdingGenesisAndAA))
       = map ReadBlockBySlot [3168, 3136, 3104, 3072, 3040, 3008, 2976, 2944, 2912]
           @ [ReadBlockByRoot 0xAA, ReadState 0x55]"
    "head (snd (?tick holdingGenesisAndAA)) = Some finalityAA"
    "currentBundle (snd (?tick holdingGenesisAndAA)) = Some finalityAA"
    unfolding stale_tick_a [OF h] publish_a [OF fcAA]
    by (simp_all add: checkpoint.simps run_defs store_defs finalityAA_def)
  have d: "?tick (snd (?tick holdingGenesisAndAA)) = (None, snd (?tick holdingGenesisAndAA))"
    by (rule fresh_tick_a [OF c(3,4)])
  show ?thesis using a b c(1,2) unfolding d by simp
qed


subsection \<open>The historical back-fill\<close>

lemma Add_keeps_slots:
  assumes "Add blk e st = (None, st')" and "GetBySlot st x = Inr (Some b)"
  shows "\<exists>b'. GetBySlot st' x = Inr (Some b')"
  using assms by (auto simp: Add_def split: sum.splits)

lemma backfillSlot_holds_mono:
  assumes "holdsSlot m x"
  shows "holdsSlot (snd (spec_backfillSlot calc up sp gen s m)) x"
proof -
  obtain b where b: "GetBySlot (blocks m) x = Inr (Some b)"
    using assms by (auto simp: holdsSlot_def split: sum.splits option.splits)
  show ?thesis
    using b Add_keeps_slots [of _ _ "blocks m" _ x b]
    by (fastforce simp: spec_backfillSlot_def holdsSlot_def touch_def Let_def
          split: sum.splits option.splits prod.splits)
qed

lemma backfillSlot_fetched:
  "fetched (snd (spec_backfillSlot calc up sp gen s m))
     = fetched m @ (if s \<noteq> 0 \<and> \<not> holdsSlot m s then [(Name up, SlotId s)] else [])"
  by (auto simp: spec_backfillSlot_def holdsSlot_def touch_def Let_def
        split: sum.splits option.splits prod.splits)


lemma backfill_holds_mono:
  assumes "holdsSlot m x"
  shows "holdsSlot (snd (spec_backfill (spec_backfillSlot calc up sp gen) ss m)) x"
  using assms
proof (induction ss arbitrary: m)
  case Nil
  then show ?case by simp
next
  case (Cons s ss)
  obtain e m' where step: "spec_backfillSlot calc up sp gen s m = (e, m')"
    by (cases "spec_backfillSlot calc up sp gen s m")
  have h: "holdsSlot m' x"
    using backfillSlot_holds_mono [OF Cons.prems, of calc up sp gen s] step by simp
  show ?case
  proof (cases e)
    case None
    then show ?thesis using step Cons.IH [OF h] by simp
  next
    case (Some err)
    then show ?thesis using step h by simp
  qed
qed

lemma backfill_fetched:
  "\<exists>fs. subseq fs ss
      \<and> fetched (snd (spec_backfill (spec_backfillSlot calc up sp gen) ss m))
          = fetched m @ map (\<lambda>s. (Name up, SlotId s)) fs
      \<and> (\<forall>s \<in> set fs. s \<noteq> 0 \<and> \<not> holdsSlot m s)
      \<and> (fst (spec_backfill (spec_backfillSlot calc up sp gen) ss m) = None
          \<longrightarrow> (\<forall>s \<in> set ss. s = 0 \<or> s \<in> set fs
                  \<or> holdsSlot (snd (spec_backfill (spec_backfillSlot calc up sp gen) ss m)) s))"
proof (induction ss arbitrary: m)
  case Nil
  show ?case by simp
next
  case (Cons s ss)
  let ?B = "spec_backfill (spec_backfillSlot calc up sp gen)"
  let ?f = "\<lambda>s. (Name up, SlotId s)"
  obtain e m' where step: "spec_backfillSlot calc up sp gen s m = (e, m')"
    by (cases "spec_backfillSlot calc up sp gen s m")
  have f: "fetched m' = fetched m @ (if s \<noteq> 0 \<and> \<not> holdsSlot m s then [?f s] else [])"
    using backfillSlot_fetched [of calc up sp gen s m] step by simp
  have mono: "holdsSlot m' x" if "holdsSlot m x" for x
    using backfillSlot_holds_mono [OF that, of calc up sp gen s] step by simp
  show ?case
  proof (cases e)
    case (Some err)
    have r: "?B (s # ss) m = (Some err, m')" using step Some by simp
    show ?thesis
    proof (cases "s \<noteq> 0 \<and> \<not> holdsSlot m s")
      case True
      have 1: "subseq [s] (s # ss)" by simp
      have 2: "fetched (snd (?B (s # ss) m)) = fetched m @ map ?f [s]"
        unfolding r using f True by simp
      have 3: "\<forall>x \<in> set [s]. x \<noteq> 0 \<and> \<not> holdsSlot m x" using True by simp
      have 4: "fst (?B (s # ss) m) = None
          \<longrightarrow> (\<forall>x \<in> set (s # ss). x = 0 \<or> x \<in> set [s] \<or> holdsSlot (snd (?B (s # ss) m)) x)"
        unfolding r by simp
      from 1 2 3 4 show ?thesis by (intro exI [of _ "[s]"] conjI)
    next
      case False
      have 1: "subseq [] (s # ss)" by simp
      have 2: "fetched (snd (?B (s # ss) m)) = fetched m @ map ?f []"
        unfolding r using f False by simp
      have 3: "\<forall>x \<in> set []. x \<noteq> 0 \<and> \<not> holdsSlot m x" by simp
      have 4: "fst (?B (s # ss) m) = None
          \<longrightarrow> (\<forall>x \<in> set (s # ss). x = 0 \<or> x \<in> set [] \<or> holdsSlot (snd (?B (s # ss) m)) x)"
        unfolding r by simp
      from 1 2 3 4 show ?thesis by (intro exI [of _ "[]"] conjI)
    qed
  next
    case None
    have run: "?B (s # ss) m = ?B ss m'" using step None by simp
    from Cons.IH [of m'] obtain fs where fs: "subseq fs ss
      \<and> fetched (snd (?B ss m')) = fetched m' @ map ?f fs
      \<and> (\<forall>x \<in> set fs. x \<noteq> 0 \<and> \<not> holdsSlot m' x)
      \<and> (fst (?B ss m') = None
          \<longrightarrow> (\<forall>x \<in> set ss. x = 0 \<or> x \<in> set fs \<or> holdsSlot (snd (?B ss m')) x))" ..
    from fs have fs1: "subseq fs ss" by (rule conjunct1)
    from fs have fs2: "fetched (snd (?B ss m')) = fetched m' @ map ?f fs"
      by (rule conjunct2 [THEN conjunct1])
    from fs have fs3: "\<forall>x \<in> set fs. x \<noteq> 0 \<and> \<not> holdsSlot m' x"
      by (rule conjunct2 [THEN conjunct2, THEN conjunct1])
    from fs have fs4: "fst (?B ss m') = None
          \<longrightarrow> (\<forall>x \<in> set ss. x = 0 \<or> x \<in> set fs \<or> holdsSlot (snd (?B ss m')) x)"
      by (rule conjunct2 [THEN conjunct2, THEN conjunct2])
    have fs3': "\<forall>x \<in> set fs. x \<noteq> 0 \<and> \<not> holdsSlot m x"
    proof
      fix x assume "x \<in> set fs"
      with fs3 have "x \<noteq> 0" "\<not> holdsSlot m' x" by simp_all
      then show "x \<noteq> 0 \<and> \<not> holdsSlot m x" using mono [of x] by blast
    qed
    show ?thesis
    proof (cases "s \<noteq> 0 \<and> \<not> holdsSlot m s")
      case True
      have 1: "subseq (s # fs) (s # ss)" using fs1 by simp
      have 2: "fetched (snd (?B (s # ss) m)) = fetched m @ map ?f (s # fs)"
        unfolding run fs2 using f True by simp
      have 3: "\<forall>x \<in> set (s # fs). x \<noteq> 0 \<and> \<not> holdsSlot m x" using True fs3' by simp
      have 4: "fst (?B (s # ss) m) = None
          \<longrightarrow> (\<forall>x \<in> set (s # ss). x = 0 \<or> x \<in> set (s # fs) \<or> holdsSlot (snd (?B (s # ss) m)) x)"
        unfolding run using fs4 by auto
      from 1 2 3 4 show ?thesis by (intro exI [of _ "s # fs"] conjI)
    next
      case False
      then have sh: "s = 0 \<or> holdsSlot (snd (?B ss m')) s"
        using mono [of s] backfill_holds_mono [of m' s calc up sp gen ss] by blast
      have 1: "subseq fs (s # ss)" using fs1 by (rule list_emb_Cons)
      have 2: "fetched (snd (?B (s # ss) m)) = fetched m @ map ?f fs"
        unfolding run fs2 using f False by simp
      have 4: "fst (?B (s # ss) m) = None
          \<longrightarrow> (\<forall>x \<in> set (s # ss). x = 0 \<or> x \<in> set fs \<or> holdsSlot (snd (?B (s # ss) m)) x)"
        unfolding run using fs4 sh by auto
      from 1 2 fs3' 4 show ?thesis by (intro exI [of _ fs] conjI)
    qed
  qed
qed


lemma loopSlots_are_spec:
  assumes "9 \<le> unat e"
  shows "historicalLoopSlots (e * spe) spe = spec_historicalSlots e spe"
proof -
  have "e * spe - of_nat i * spe = of_nat (unat e * unat spe - i * unat spe)"
    if "i \<in> set [1..<10]" for i
  proof -
    from that assms have "i * unat spe \<le> unat e * unat spe" by simp
    then have "(of_nat (unat e * unat spe - i * unat spe) :: 64 word)
        = of_nat (unat e * unat spe) - of_nat (i * unat spe)"
      by (rule of_nat_diff)
    then show ?thesis by simp
  qed
  then show ?thesis
    by (simp add: historicalLoopSlots_def spec_historicalSlots_def historicalDistance_def)
qed

lemma spec_historicalSlots_numbers:
  assumes "unat e * unat spe < 2 ^ 64"
  shows "map unat (spec_historicalSlots e spe) = map (\<lambda>i. unat e * unat spe - i * unat spe) [1..<10]"
proof -
  have "unat (of_nat (unat e * unat spe - i * unat spe) :: 64 word) = unat e * unat spe - i * unat spe"
    for i
  proof -
    have "unat e * unat spe - i * unat spe < 2 ^ 64"
      using assms by simp
    then show ?thesis by (simp add: unat_of_nat)
  qed
  then show ?thesis by (simp add: spec_historicalSlots_def)
qed

text \<open>
  C5, as the code has it. Take a finalized epoch E of at least 9 whose slot
  E * SlotsPerEpoch fits in 64 bits, so that no slot of the loop wraps around. With a ready
  data provider whose GetSpec and GetGenesis answer, the handler takes the slots
  E * SlotsPerEpoch - i * SlotsPerEpoch for i = 1..9 in this order. It skips slot 0 and a
  slot for which the block store answers with a block, and otherwise fetches the block of
  the slot from that provider; a nil block is skipped, any other block is added with the
  expiration CalculateBlockExpiration gives for the slot; the first error of the fetch, of
  StateRoot() or of Add ends the handler with that error. So the fetches are, in order,
  slots among the nine, none of them 0 or held at the start, and when the handler returns
  nil every one of the nine slots is 0, was fetched or is held.
\<close>

theorem fetchHistoricalCheckpoints_backfills:
  assumes "RandomNode (DataProviders (Ready nodes)) rnd = Inr up"
    and "GetSpec up = Inr sp" and "GetGenesis up = Inr gen" and "Finalized checkpoint = Some fc"
    and "9 \<le> unat (Epoch fc)" and "unat (Epoch fc) * unat (SlotsPerEpoch sp) < 2 ^ 64"
  shows "fetchHistoricalCheckpoints nodes rnd calc checkpoint m
           = spec_backfill (spec_backfillSlot calc up sp gen)
               (spec_historicalSlots (Epoch fc) (SlotsPerEpoch sp)) m
       \<and> map unat (spec_historicalSlots (Epoch fc) (SlotsPerEpoch sp))
           = map (\<lambda>i. unat (Epoch fc) * unat (SlotsPerEpoch sp) - i * unat (SlotsPerEpoch sp)) [1..<10]
       \<and> (\<exists>fs. subseq fs (spec_historicalSlots (Epoch fc) (SlotsPerEpoch sp))
             \<and> fetched (snd (fetchHistoricalCheckpoints nodes rnd calc checkpoint m))
                 = fetched m @ map (\<lambda>s. (Name up, SlotId s)) fs
             \<and> (\<forall>s \<in> set fs. s \<noteq> 0 \<and> \<not> holdsSlot m s)
             \<and> (fst (fetchHistoricalCheckpoints nodes rnd calc checkpoint m) = None
                 \<longrightarrow> (\<forall>s \<in> set (spec_historicalSlots (Epoch fc) (SlotsPerEpoch sp)).
                        s = 0 \<or> s \<in> set fs
                        \<or> holdsSlot (snd (fetchHistoricalCheckpoints nodes rnd calc checkpoint m)) s)))"
  unfolding handler_runs_backfill [OF assms(1-4)] loopSlots_are_spec [OF assms(5)]
  using backfill_fetched [of "spec_historicalSlots (Epoch fc) (SlotsPerEpoch sp)" calc up sp gen m]
    spec_historicalSlots_numbers [OF assms(6)]
  by simp

theorem fetchHistoricalCheckpoints_backfills_witness:
  "9 \<le> unat (100 :: 64 word) \<and> unat (100 :: 64 word) * unat (32 :: 64 word) < 2 ^ 64
   \<and> spec_historicalSlots 100 32 = [3168, 3136, 3104, 3072, 3040, 3008, 2976, 2944, 2912]
   \<and> fst (fetchHistoricalCheckpoints [upstream ''a'' finalityAA 32] 0 (expireAfter 0) finalityAA
          (NewMajorityProvider 16)) = None
   \<and> fetched (snd (fetchHistoricalCheckpoints [upstream ''a'' finalityAA 32] 0 (expireAfter 0) finalityAA
          (NewMajorityProvider 16)))
       = map (\<lambda>s. (''a'', SlotId s)) [3168, 3136, 3104, 3072, 3040, 3008, 2976, 2944, 2912]
   \<and> GetBySlot (blocks (snd (fetchHistoricalCheckpoints [upstream ''a'' finalityAA 32] 0 (expireAfter 0)
          finalityAA (NewMajorityProvider 16)))) 2912 = Inr (Some (blockAt 2912))
   \<and> ExpiresAt (blocks (snd (fetchHistoricalCheckpoints [upstream ''a'' finalityAA 32] 0 (expireAfter 0)
          finalityAA (NewMajorityProvider 16)))) (0x10000 + 3168) = Some (3 * 24 * Hour)
   \<and> fetched (snd (fetchHistoricalCheckpoints [upstream ''a'' finalityAA 32] 0 (expireAfter 0) finalityAA
          holding3136))
       = map (\<lambda>s. (''a'', SlotId s)) [3168, 3104, 3072, 3040, 3008, 2976, 2944, 2912]"
proof -
  have e: "9 \<le> unat (100 :: 64 word)" "unat (100 :: 64 word) * unat (32 :: 64 word) < 2 ^ 64"
    by simp_all
  have slots: "spec_historicalSlots 100 32 = [3168, 3136, 3104, 3072, 3040, 3008, 2976, 2944, 2912]"
    by (simp add: spec_historicalSlots_def upt_rec)
  have T: "fetchHistoricalCheckpoints [upstream ''a'' finalityAA 32] 0 (expireAfter 0) finalityAA m
      = spec_backfill (spec_backfillSlot (expireAfter 0) (upstream ''a'' finalityAA 32)
            \<lparr>SlotsPerEpoch = 32, SecondsPerSlot = 12000000000\<rparr> \<lparr>GenesisTime = 0\<rparr>)
          [3168, 3136, 3104, 3072, 3040, 3008, 2976, 2944, 2912] m" for m
    using fetchHistoricalCheckpoints_backfills [where nodes = "[upstream ''a'' finalityAA 32]"
        and rnd = 0 and up = "upstream ''a'' finalityAA 32"
        and sp = "\<lparr>SlotsPerEpoch = 32, SecondsPerSlot = 12000000000\<rparr>"
        and gen = "\<lparr>GenesisTime = 0\<rparr>" and checkpoint = finalityAA
        and fc = "\<lparr>Epoch = 100, Root = 0xAA\<rparr>" and calc = "expireAfter 0" and m = m]
      provider_a(1) upstream_answers(1,2) fcAA e
    by (simp add: slots)
  show ?thesis
    unfolding T
    by (simp add: slots spec_backfillSlot_def upstream_answers touch_def blockAt_def Add_def expireAfter_def
          holding3136_def downloadBundle_def AddState_def
          NewMajorityProvider_def NewBlock_def NewBeaconState_def Let_def)
qed

text \<open>
  C5, as the claim words it, fails: when the fetch of slot 3168 returns an error the handler
  returns it, and slot 3136, which is not 0, not held and which the provider would serve, is
  neither fetched nor added.
\<close>

theorem fetchHistoricalCheckpoints_stops_at_error:
  "fst (fetchHistoricalCheckpoints [flaky (upstream ''a'' finalityAA 32)] 0 (expireAfter 0) finalityAA
          (NewMajorityProvider 16)) = Some (External ''timeout'')
   \<and> fetched (snd (fetchHistoricalCheckpoints [flaky (upstream ''a'' finalityAA 32)] 0 (expireAfter 0)
          finalityAA (NewMajorityProvider 16))) = [(''a'', SlotId 3168)]
   \<and> (3136 :: slot) = 100 * 32 - of_nat 2 * 32
   \<and> (3136 :: slot) \<noteq> 0
   \<and> GetBySlot (blocks (NewMajorityProvider 16)) 3136 = Inr None
   \<and> FetchBlock (flaky (upstream ''a'' finalityAA 32)) (SlotId 3136) = Inr (Some (blockAt 3136))
   \<and> (''a'', SlotId 3136) \<notin> set (fetched (snd (fetchHistoricalCheckpoints
          [flaky (upstream ''a'' finalityAA 32)] 0 (expireAfter 0) finalityAA (NewMajorityProvider 16))))
   \<and> GetBySlot (blocks (snd (fetchHistoricalCheckpoints [flaky (upstream ''a'' finalityAA 32)] 0
          (expireAfter 0) finalityAA (NewMajorityProvider 16)))) 3136 = Inr None"
proof -
  have fc: "Finalized finalityAA = Some \<lparr>Epoch = 100, Root = 0xAA\<rparr>"
    by (simp add: finalityAA_def)
  have run: "fetchHistoricalCheckpoints [flaky (upstream ''a'' finalityAA 32)] 0 (expireAfter 0) finalityAA
          (NewMajorityProvider 16)
     = (Some (External ''timeout''),
        (NewMajorityProvider 16)\<lparr>fetched := [(''a'', SlotId 3168)], touched := [ReadBlockBySlot 3168]\<rparr>)"
    unfolding handler_runs_backfill [OF provider_a(2) upstream_answers(3,4) fc]
    by (simp add: loopSlots_eval spec_backfillSlot_def upstream_answers touch_def
          NewMajorityProvider_def NewBlock_def Let_def)
  show ?thesis
    unfolding run by (simp add: upstream_answers NewMajorityProvider_def NewBlock_def)
qed


subsection \<open>The slots of the back-fill and the alignment of the serving update\<close>

lemma backfill_fetches_slots:
  assumes "x \<in> set (drop (length (fetched m))
              (fetched (snd (spec_backfill (spec_backfillSlot calc up sp gen)
                 (historicalLoopSlots cs spe) m))))"
  shows "fst x = Name up \<and> (\<exists>i \<in> {1..<10}. snd x = SlotId (cs - of_nat i * spe))"
proof -
  from backfill_fetched [of "historicalLoopSlots cs spe" calc up sp gen m]
  obtain fs where fs: "subseq fs (historicalLoopSlots cs spe)
      \<and> fetched (snd (spec_backfill (spec_backfillSlot calc up sp gen) (historicalLoopSlots cs spe) m))
          = fetched m @ map (\<lambda>s. (Name up, SlotId s)) fs
      \<and> (\<forall>s \<in> set fs. s \<noteq> 0 \<and> \<not> holdsSlot m s)
      \<and> (fst (spec_backfill (spec_backfillSlot calc up sp gen) (historicalLoopSlots cs spe) m) = None
          \<longrightarrow> (\<forall>s \<in> set (historicalLoopSlots cs spe). s = 0 \<or> s \<in> set fs
                  \<or> holdsSlot (snd (spec_backfill (spec_backfillSlot calc up sp gen)
                        (historicalLoopSlots cs spe) m)) s))" ..
  from fs have sub: "subseq fs (historicalLoopSlots cs spe)" by (rule conjunct1)
  from fs have eq: "fetched (snd (spec_backfill (spec_backfillSlot calc up sp gen)
          (historicalLoopSlots cs spe) m))
          = fetched m @ map (\<lambda>s. (Name up, SlotId s)) fs"
    by (rule conjunct2 [THEN conjunct1])
  from assms obtain s where s: "s \<in> set fs" "x = (Name up, SlotId s)"
    unfolding eq by auto
  from sub s(1) have "s \<in> set (historicalLoopSlots cs spe)"
    by (rule list_emb_set) simp
  then obtain i where "i \<in> {1..<10}" "s = cs - of_nat i * spe"
    by (auto simp: historicalLoopSlots_def historicalDistance_def)
  with s(2) show ?thesis by auto
qed

text \<open>
  C6. Every slot the back-fill fetches is E * SlotsPerEpoch - i * SlotsPerEpoch for the
  SlotsPerEpoch of the provider's GetSpec, and the serving update accepts a held block
  exactly when its slot is a multiple of 32, whatever the upstreams report.
\<close>

theorem alignment_ignores_reported_SlotsPerEpoch:
  assumes "RandomNode (DataProviders (Ready nodes)) rnd = Inr up"
    and "GetSpec up = Inr sp" and "GetGenesis up = Inr gen" and "Finalized checkpoint = Some fc"
  shows "(\<forall>x \<in> set (drop (length (fetched m))
                  (fetched (snd (fetchHistoricalCheckpoints nodes rnd calc checkpoint m)))).
            fst x = Name up
            \<and> (\<exists>i \<in> {1..<10}. snd x = SlotId (Epoch fc * SlotsPerEpoch sp - of_nat i * SlotsPerEpoch sp)))
       \<and> (\<forall>C c blk sr st sl. Finalized C = Some c \<and> GetByRoot (blocks m) (Root c) = Inr (Some blk)
              \<and> StateRoot blk = Inr sr \<and> StateByStateRoot (states m) sr = Inr (Some st)
              \<and> Slot blk = Inr sl
            \<longrightarrow> fst (updateServingCheckpoint C m)
                  = (if sl mod 32 \<noteq> 0 then Some (NotAligned sl) else None))"
proof -
  have a: "\<forall>x \<in> set (drop (length (fetched m))
                  (fetched (snd (fetchHistoricalCheckpoints nodes rnd calc checkpoint m)))).
            fst x = Name up
            \<and> (\<exists>i \<in> {1..<10}. snd x = SlotId (Epoch fc * SlotsPerEpoch sp - of_nat i * SlotsPerEpoch sp))"
    unfolding handler_runs_backfill [OF assms]
    using backfill_fetches_slots [of _ m calc up sp gen "Epoch fc * SlotsPerEpoch sp" "SlotsPerEpoch sp"]
    by blast
  have b: "\<forall>C c blk sr st sl. Finalized C = Some c \<and> GetByRoot (blocks m) (Root c) = Inr (Some blk)
              \<and> StateRoot blk = Inr sr \<and> StateByStateRoot (states m) sr = Inr (Some st)
              \<and> Slot blk = Inr sl
            \<longrightarrow> fst (updateServingCheckpoint C m)
                  = (if sl mod 32 \<noteq> 0 then Some (NotAligned sl) else None)"
    by (simp add: updateServingCheckpoint_def touch_def Let_def)
  from a b show ?thesis by (intro conjI)
qed

theorem alignment_ignores_reported_SlotsPerEpoch_witness:
  "fetched (snd (fetchHistoricalCheckpoints [upstream ''a'' finalityAA 8] 0 (expireAfter 0) finalityAA
          (NewMajorityProvider 16)))
       = map (\<lambda>s. (''a'', SlotId s)) [792, 784, 776, 768, 760, 752, 744, 736, 728]
   \<and> (\<exists>i \<in> {1..<10}. SlotId 792 = SlotId (100 * 8 - of_nat i * 8))
   \<and> (792 :: slot) mod 8 = 0
   \<and> fst (updateServingCheckpoint finality792 holdingSlot792) = Some (NotAligned 792)"
proof -
  have f8: "fetched (snd (fetchHistoricalCheckpoints [upstream ''a'' finalityAA 8] 0 (expireAfter 0)
          finalityAA (NewMajorityProvider 16)))
       = map (\<lambda>s. (''a'', SlotId s)) [792, 784, 776, 768, 760, 752, 744, 736, 728]"
    unfolding handler_runs_backfill [OF provider_a(1) upstream_answers(1,2) fcAA]
    by (simp add: loopSlots_eval spec_backfillSlot_def upstream_answers touch_def blockAt_def Add_def
          expireAfter_def NewMajorityProvider_def NewBlock_def NewBeaconState_def Let_def)
  note T8 = alignment_ignores_reported_SlotsPerEpoch [where rnd = 0
      and sp = "\<lparr>SlotsPerEpoch = 8, SecondsPerSlot = 12000000000\<rparr>"
      and gen = "\<lparr>GenesisTime = 0\<rparr>" and checkpoint = finalityAA
      and fc = "\<lparr>Epoch = 100, Root = 0xAA\<rparr>" and calc = "expireAfter 0"
      and nodes = "[upstream ''a'' finalityAA 8]" and up = "upstream ''a'' finalityAA 8",
      OF provider_a(1) upstream_answers(1,2) fcAA]
  have a: "\<exists>i \<in> {1..<10}. SlotId 792 = SlotId (100 * 8 - of_nat i * 8)"
    using T8 [where m = "NewMajorityProvider 16", THEN conjunct1, THEN bspec, of "(''a'', SlotId 792)"]
    unfolding f8 by (simp add: NewMajorityProvider_def)
  have held: "GetByRoot (blocks holdingSlot792) 0x10318 = Inr (Some (blockAt 792))"
    "StateByStateRoot (states holdingSlot792) 0x20318 = Inr (Some [9])"
    "StateRoot (blockAt 792) = Inr 0x20318" "Slot (blockAt 792) = Inr 792"
    by (simp_all add: holdingSlot792_def blockAt_def downloadBundle_def Add_def AddState_def
          NewMajorityProvider_def NewBlock_def NewBeaconState_def)
  have b: "fst (updateServingCheckpoint finality792 holdingSlot792) = Some (NotAligned 792)"
    using T8 [where m = holdingSlot792, THEN conjunct2, THEN spec, of finality792,
        THEN spec, of "\<lparr>Epoch = 99, Root = 0x10318\<rparr>", THEN spec, of "blockAt 792",
        THEN spec, of "0x20318", THEN spec, of "[9]", THEN spec, of 792] held
    by (simp add: finality792_def)
  from f8 a b show ?thesis by simp
qed


subsection \<open>Serving closure and alignment\<close>

lemma servingClosed_iff:
  "servingClosed m F \<longleftrightarrow>
     (\<exists>fc blk sr st sl. Finalized F = Some fc \<and> GetByRoot (blocks m) (Root fc) = Inr (Some blk)
        \<and> StateRoot blk = Inr sr \<and> StateByStateRoot (states m) sr = Inr (Some st)
        \<and> Slot blk = Inr sl \<and> sl mod 32 = 0)"
  by (auto simp: servingClosed_def split: option.splits sum.splits)

lemma servingClosed_stores:
  assumes "blocks m' = blocks m" and "states m' = states m"
  shows "servingClosed m' F = servingClosed m F"
  using assms by (simp add: servingClosed_iff)

lemma servingClosed_keeps:
  assumes "servingClosed m F" and "keeps m m'"
  shows "servingClosed m' F"
proof -
  from assms(1) obtain fc blk sr st sl where h: "Finalized F = Some fc"
    "GetByRoot (blocks m) (Root fc) = Inr (Some blk)" "StateRoot blk = Inr sr"
    "StateByStateRoot (states m) sr = Inr (Some st)" "Slot blk = Inr sl" "sl mod 32 = 0"
    using servingClosed_iff [of m F] by metis
  from assms(2) h(2) have b: "GetByRoot (blocks m') (Root fc) = Inr (Some blk)"
    by (simp add: keeps_def)
  from assms(2) h(4) have s: "StateByStateRoot (states m') sr = Inr (Some st)"
    by (simp add: keeps_def)
  show ?thesis using servingClosed_iff [of m' F] h(1,3,5,6) b s by metis
qed

lemma updateServingCheckpoint_serving:
  "currentBundle (snd (updateServingCheckpoint C m)) = currentBundle m
   \<or> (currentBundle (snd (updateServingCheckpoint C m)) = Some C \<and> servingClosed m C)"
  by (auto simp: updateServingCheckpoint_def servingClosed_iff touch_def Let_def
        split: sum.splits option.splits)


lemma tick_serving:
  assumes "keeps m (snd (checkFinality nodes rnd calc Majority m))"
    and "\<forall>F. currentBundle m = Some F \<longrightarrow> Finalized F \<noteq> None \<longrightarrow> servingClosed m F"
    and "currentBundle (snd (checkFinality nodes rnd calc Majority m)) = Some F"
    and "Finalized F \<noteq> None"
  shows "servingClosed (snd (checkFinality nodes rnd calc Majority m)) F"
proof -
  let ?m' = "snd (checkFinality nodes rnd calc Majority m)"
  from tick_outcome [of m nodes rnd calc Majority]
  obtain s where s: "s = m \<or> (\<exists>maj. s = publishFinalityCheckpointHeadUpdated nodes rnd calc maj
        (m\<lparr>head := Some maj\<rparr>))"
    and out: "?m' = s \<or> (\<exists>C. ?m' = snd (updateServingCheckpoint C s))"
    by blast
  have cb: "currentBundle s = currentBundle m"
    using s publish_frame by auto
  have old: "servingClosed ?m' F" if "currentBundle ?m' = currentBundle m"
  proof -
    from that assms(2,3,4) have "servingClosed m F" by simp
    then show ?thesis using assms(1) by (rule servingClosed_keeps)
  qed
  from out show ?thesis
  proof
    assume "?m' = s"
    then have "currentBundle ?m' = currentBundle m" using cb by simp
    then show ?thesis by (rule old)
  next
    assume "\<exists>C. ?m' = snd (updateServingCheckpoint C s)"
    then obtain C where C: "?m' = snd (updateServingCheckpoint C s)" ..
    from updateServingCheckpoint_serving [of C s]
    show ?thesis
    proof
      assume "currentBundle (snd (updateServingCheckpoint C s)) = currentBundle s"
      then have "currentBundle ?m' = currentBundle m" using C cb by simp
      then show ?thesis by (rule old)
    next
      assume a: "currentBundle (snd (updateServingCheckpoint C s)) = Some C \<and> servingClosed s C"
      then have "C = F" using assms(3) C by simp
      moreover have "blocks ?m' = blocks s" "states ?m' = states s"
        using updateServingCheckpoint_frame [of C s] C by simp_all
      ultimately show ?thesis using a servingClosed_stores [of ?m' s F] by simp
    qed
  qed
qed

lemma genesisStored_serving:
  "currentBundle (snd (genesisStored m)) = currentBundle m
   \<and> blocks (snd (genesisStored m)) = blocks m \<and> states (snd (genesisStored m)) = states m"
  by (auto simp: genesisStored_def touch_def Let_def split: sum.splits option.splits)

lemma checkGenesis_serving:
  "currentBundle (snd (checkGenesis nodes rnd m)) = currentBundle m
   \<and> blocks (snd (checkGenesis nodes rnd m)) = blocks m
   \<and> states (snd (checkGenesis nodes rnd m)) = states m"
proof -
  obtain b m1 where g: "genesisStored m = (b, m1)" by (cases "genesisStored m")
  have fr: "currentBundle m1 = currentBundle m" "blocks m1 = blocks m" "states m1 = states m"
    using genesisStored_serving [of m] g by simp_all
  show ?thesis
    using g fr
    by (cases b) (simp_all add: checkGenesis_def Let_def split: sum.splits option.splits prod.splits)
qed


lemma downloadBundle_serving:
  "currentBundle (downloadBundle blk st expiresAt m) = currentBundle m"
  by (simp add: downloadBundle_def Let_def split: sum.splits option.splits)

lemma reachableKeeping_serving:
  assumes "reachableKeeping m"
  shows "\<forall>F. currentBundle m = Some F \<longrightarrow> Finalized F \<noteq> None \<longrightarrow> servingClosed m F"
  using assms
proof (induction rule: reachableKeeping.induct)
  case (k_start queueCapacity)
  show ?case by (simp add: NewMajorityProvider_def)
next
  case (k_tick m m' nodes rnd calc Majority)
  show ?case
    using tick_serving [of m nodes rnd calc Majority] k_tick.hyps(2,3) k_tick.IH by blast
next
  case (k_genesis m nodes rnd)
  then show ?case
    using checkGenesis_serving [of nodes rnd m]
      servingClosed_stores [of "snd (checkGenesis nodes rnd m)" m] by simp
next
  case (k_queued m checkpoint)
  then show ?case
    using handleFinalityUpdated_frame [of checkpoint m]
      servingClosed_stores [of "snd (handleFinalityUpdated checkpoint m)" m] by simp
next
  case (k_backfilled m m' nodes rnd calc checkpoint)
  then show ?case
    using fetchHistoricalCheckpoints_frame [of nodes rnd calc checkpoint m]
      servingClosed_keeps [of m _ m'] by simp
next
  case (k_downloaded m m' blk st expiresAt)
  then show ?case
    using downloadBundle_serving [of blk st expiresAt m] servingClosed_keeps [of m _ m'] by simp
qed

text \<open>
  C1, as the code has it. In every state the provider reaches while the stores keep their
  entries (no expiry, no eviction, no admission that replaces an entry), if currentBundle is
  F and F names a finalized checkpoint, then the block store has a block at
  F.Finalized.Root, the state store has a state at that block's state root, and the block's
  slot is a multiple of 32.
\<close>

theorem serving_closed_while_stores_keep:
  assumes "reachableKeeping m" and "currentBundle m = Some F" and "Finalized F = Some fc"
  shows "\<exists>blk sr st sl. GetByRoot (blocks m) (Root fc) = Inr (Some blk) \<and> StateRoot blk = Inr sr
           \<and> StateByStateRoot (states m) sr = Inr (Some st) \<and> Slot blk = Inr sl \<and> sl mod 32 = 0"
proof -
  from reachableKeeping_serving [OF assms(1)] assms(2,3) have "servingClosed m F" by simp
  then obtain fc' blk sr st sl where h: "Finalized F = Some fc'"
    "GetByRoot (blocks m) (Root fc') = Inr (Some blk)" "StateRoot blk = Inr sr"
    "StateByStateRoot (states m) sr = Inr (Some st)" "Slot blk = Inr sl" "sl mod 32 = 0"
    using servingClosed_iff [of m F] by metis
  from h(1) assms(3) have "fc' = fc" by simp
  with h(2-6) show ?thesis by metis
qed

theorem serving_closed_while_stores_keep_witness:
  "reachableKeeping servingAA
   \<and> currentBundle servingAA = Some finalityAA
   \<and> Finalized finalityAA = Some \<lparr>Epoch = 100, Root = 0xAA\<rparr>
   \<and> (\<exists>blk sr st sl. GetByRoot (blocks servingAA) 0xAA = Inr (Some blk) \<and> StateRoot blk = Inr sr
           \<and> StateByStateRoot (states servingAA) sr = Inr (Some st) \<and> Slot blk = Inr sl \<and> sl mod 32 = 0)"
proof -
  have r0: "reachableKeeping (NewMajorityProvider 16)" by (rule k_start)
  have k: "keeps (NewMajorityProvider 16) holdingAA"
    by (simp add: keeps_def store_defs)
  have r1: "reachableKeeping holdingAA"
    by (rule k_downloaded [OF r0 holdingAA_def k])
  have only: "r = 0xAA \<and> blk = blockAA" if "GetByRoot (blocks holdingAA) r = Inr (Some blk)" for r blk
    using that by (simp add: store_defs split: if_splits)
  have only_state: "sr = 0x55 \<and> st = [1, 2, 3]"
    if "StateByStateRoot (states holdingAA) sr = Inr (Some st)" for sr st
    using that by (simp add: store_defs split: if_splits)
  have k2: "keeps holdingAA servingAA"
    unfolding keeps_def using only only_state servingAA_eval(4,5) by blast
  have r2: "reachableKeeping servingAA"
    by (rule k_tick [OF r1 servingAA_def k2])
  from serving_closed_while_stores_keep [OF r2 servingAA_eval(1) fcAA] r2 servingAA_eval(1) fcAA
  show ?thesis by simp
qed

text \<open>
  C1, as the claim words it, fails twice. A new provider serves the empty Finality
  NewMajorityProvider gives to currentBundle, over empty stores. And after the block store
  has evicted the served block, currentBundle still names it.
\<close>

theorem serving_closure_counterexample:
  "reachable (NewMajorityProvider 16)
   \<and> currentBundle (NewMajorityProvider 16) = Some \<lparr>Finalized = None, Justified = None\<rparr>
   \<and> \<not> servingClosed (NewMajorityProvider 16) \<lparr>Finalized = None, Justified = None\<rparr>
   \<and> reachable evictedAA
   \<and> currentBundle evictedAA = Some finalityAA
   \<and> GetByRoot (blocks evictedAA) 0xAA = Inr None
   \<and> \<not> servingClosed evictedAA finalityAA"
proof -
  have r0: "reachable (NewMajorityProvider 16)" by (rule reachable.start)
  have r1: "reachable holdingAA"
    unfolding holdingAA_def by (rule reachable.downloaded [OF r0])
  have r2: "reachable servingAA"
    unfolding servingAA_def by (rule reachable.tick [OF r1])
  have r3: "reachable evictedAA"
    unfolding evictedAA_def by (rule reachable.evicted [OF r2])
  have cb: "currentBundle evictedAA = Some finalityAA"
    by (simp add: evictedAA_def servingAA_eval)
  have gone: "GetByRoot (blocks evictedAA) 0xAA = Inr None"
    by (simp add: evictedAA_def evictBlock_def servingAA_eval blockAA_def)
  have nc: "\<not> servingClosed evictedAA finalityAA"
    using gone by (simp add: servingClosed_def finalityAA_def)
  have i: "currentBundle (NewMajorityProvider 16) = Some \<lparr>Finalized = None, Justified = None\<rparr>"
    "\<not> servingClosed (NewMajorityProvider 16) \<lparr>Finalized = None, Justified = None\<rparr>"
    by (simp_all add: NewMajorityProvider_def servingClosed_def)
  from r0 i r3 cb gone nc show ?thesis by simp
qed

end
